theory Spec2Isabelle
  imports Complex_Main
begin

section \<open>Data model (src/types.ts)\<close>

text \<open>
  The error codes of the enum \<open>ErrorCode\<close>, in the order of the source.
\<close>

datatype ErrorCode =
    CONNECTION_FAILED | CONNECTION_TIMEOUT | R2_CONNECTION_ERROR | S3_CONNECTION_ERROR
  | USER_NOT_FOUND | USER_ALREADY_EXISTS | USER_NOT_ATTACHED
  | QUERY_EXECUTION_ERROR | QUERY_TIMEOUT | INVALID_SQL
  | MEMORY_LIMIT_EXCEEDED | STORAGE_ERROR | STORAGE_QUOTA_EXCEEDED
  | INVALID_CONFIG | NOT_INITIALIZED
  | UNKNOWN_ERROR

text \<open>
  A value thrown by the engine: an instance of \<open>Error\<close> with its message, or any
  other value, given by what \<open>String(value)\<close> renders.
\<close>

datatype thrown = JsError string | JsOther string

text \<open>
  \<open>DuckPondError\<close>; the optional fields \<open>cause\<close> and \<open>context\<close> are options
  (the field \<open>context\<close> is named \<open>err_context\<close> here).
\<close>

record DuckPondError =
  code :: ErrorCode
  message :: string
  cause :: "thrown option"
  err_context :: "(string \<times> string) list option"

text \<open>
  \<open>UserDatabase\<close>: a connection is identified by a number, a \<open>Date\<close> by its
  milliseconds since the epoch.
\<close>

record UserDatabase =
  userId :: string
  connection :: nat
  lastAccess :: int
  attached :: bool
  memoryUsage :: "nat option"

record UserStats =
  stats_userId :: string
  stats_attached :: bool
  stats_lastAccess :: int
  stats_memoryUsage :: nat
  storageUsage :: nat
  queryCount :: nat

datatype cacheType = Disk | Memory | Noop

datatype strategy = Parquet | Duckdb | Hybrid

record r2_config =
  r2_accountId :: string
  r2_accessKeyId :: string
  r2_secretAccessKey :: string
  r2_bucket :: string

record s3_config =
  s3_region :: string
  s3_accessKeyId :: string
  s3_secretAccessKey :: string
  s3_bucket :: string
  s3_endpoint :: "string option"

text \<open>\<open>DuckPondConfig\<close>: every field is optional.\<close>

record DuckPondConfig =
  cfg_r2 :: "r2_config option"
  cfg_s3 :: "s3_config option"
  cfg_memoryLimit :: "string option"
  cfg_threads :: "nat option"
  cfg_tempDir :: "string option"
  cfg_maxActiveUsers :: "nat option"
  cfg_evictionTimeout :: "int option"
  cfg_cacheType :: "cacheType option"
  cfg_cacheDir :: "string option"
  cfg_strategy :: "strategy option"

text \<open>\<open>ResolvedConfig\<close>: the defaults applied; only the storage blocks stay optional.\<close>

record ResolvedConfig =
  memoryLimit :: string
  threads :: nat
  tempDir :: string
  maxActiveUsers :: nat
  evictionTimeout :: int
  cacheType :: cacheType
  cacheDir :: string
  strategy :: strategy
  r2 :: "r2_config option"
  s3 :: "s3_config option"

text \<open>
  \<open>ListUsersResult\<close>, without \<open>utilizationPercent\<close>: that field is a floating-point
  quotient, which is not modelled.
\<close>

record ListUsersResult =
  users :: "string list"
  count :: nat
  list_maxActiveUsers :: nat

section \<open>Errors and results (src/utils/errors.ts)\<close>

text \<open>
  An \<open>Either<DuckPondError, T>\<close> is the sum \<open>DuckPondError + T\<close>: \<open>Inl\<close> is
  \<open>Left\<close>, \<open>Inr\<close> is \<open>Right\<close>.
\<close>

type_synonym 'a DuckPondResult = "DuckPondError + 'a"

definition createError ::
  "ErrorCode \<Rightarrow> string \<Rightarrow> thrown option \<Rightarrow> (string \<times> string) list option \<Rightarrow> 'a DuckPondResult" where
  "createError c m cs ctx = Inl \<lparr>code = c, message = m, cause = cs, err_context = ctx\<rparr>"

definition success :: "'a \<Rightarrow> 'a DuckPondResult" where
  "success v = Inr v"

fun toDuckPondError :: "thrown \<Rightarrow> ErrorCode \<Rightarrow> DuckPondError" where
  "toDuckPondError (JsError m) defaultCode =
     \<lparr>code = defaultCode, message = m, cause = Some (JsError m), err_context = None\<rparr>"
| "toDuckPondError (JsOther s) defaultCode =
     \<lparr>code = defaultCode, message = s, cause = None, err_context = None\<rparr>"

definition r2ConnectionError :: "string \<Rightarrow> thrown option \<Rightarrow> 'a DuckPondResult" where
  "r2ConnectionError m cs = createError R2_CONNECTION_ERROR m cs None"

definition userNotFound :: "string \<Rightarrow> 'a DuckPondResult" where
  "userNotFound uid =
     createError USER_NOT_FOUND (''User not found: '' @ uid) None (Some [(''userId'', uid)])"

definition storageError :: "string \<Rightarrow> thrown option \<Rightarrow> 'a DuckPondResult" where
  "storageError m cs = createError STORAGE_ERROR m cs None"

definition notInitialized :: "unit \<Rightarrow> 'a DuckPondResult" where
  "notInitialized u =
     createError NOT_INITIALIZED ''DuckPond not initialized. Call init() first.'' None None"

section \<open>The JavaScript \<open>Map\<close>\<close>

text \<open>
  A \<open>Map\<close> iterates in insertion order, so it is an association list with the oldest
  insertion first. \<open>Map.set\<close> keeps the position of a key that is present and appends
  a new key; \<open>Map.delete\<close> removes the key.
\<close>

type_synonym ('k, 'v) js_map = "('k \<times> 'v) list"

definition Map_has :: "('k, 'v) js_map \<Rightarrow> 'k \<Rightarrow> bool" where
  "Map_has m k = (map_of m k \<noteq> None)"

fun Map_set :: "'k \<Rightarrow> 'v \<Rightarrow> ('k, 'v) js_map \<Rightarrow> ('k, 'v) js_map" where
  "Map_set k v [] = [(k, v)]"
| "Map_set k v (p # m) = (if fst p = k then (k, v) # m else p # Map_set k v m)"

definition Map_delete :: "'k \<Rightarrow> ('k, 'v) js_map \<Rightarrow> ('k, 'v) js_map" where
  "Map_delete k m = filter (\<lambda>p. fst p \<noteq> k) m"

section \<open>The LRU cache (src/cache/LRUCache.ts)\<close>

text \<open>
  The two fields of the class: the map, and the capacity \<open>maxSize\<close>, a number of entries
  (the configuration's \<open>maxActiveUsers\<close> is a positive integer).
\<close>

record LRUCache =
  cache_map :: "(string, UserDatabase) js_map"
  maxSize :: nat

definition new_LRUCache :: "nat \<Rightarrow> LRUCache" where
  "new_LRUCache n = \<lparr>cache_map = [], maxSize = n\<rparr>"

text \<open>
  \<open>get\<close>: a hit deletes the key, sets it again (so it becomes the last, most recently
  used one) and writes the current time \<open>now\<close> into the item, which the map shares.
\<close>

definition LRUCache_get :: "int \<Rightarrow> string \<Rightarrow> LRUCache \<Rightarrow> UserDatabase option \<times> LRUCache" where
  "LRUCache_get now key c =
     (case map_of (cache_map c) key of
        None \<Rightarrow> (None, c)
      | Some item \<Rightarrow>
          (let item' = item\<lparr>lastAccess := now\<rparr>
           in (Some item', c\<lparr>cache_map := Map_set key item' (Map_delete key (cache_map c))\<rparr>)))"

definition LRUCache_has :: "LRUCache \<Rightarrow> string \<Rightarrow> bool" where
  "LRUCache_has c key = Map_has (cache_map c) key"

definition LRUCache_size :: "LRUCache \<Rightarrow> nat" where
  "LRUCache_size c = length (cache_map c)"

definition LRUCache_getLRU :: "LRUCache \<Rightarrow> string option" where
  "LRUCache_getLRU c = (case cache_map c of [] \<Rightarrow> None | p # _ \<Rightarrow> Some (fst p))"

definition LRUCache_evictLRU :: "LRUCache \<Rightarrow> LRUCache" where
  "LRUCache_evictLRU c =
     (case LRUCache_getLRU c of
        None \<Rightarrow> c
      | Some key \<Rightarrow> c\<lparr>cache_map := Map_delete key (cache_map c)\<rparr>)"

definition LRUCache_set :: "int \<Rightarrow> string \<Rightarrow> UserDatabase \<Rightarrow> LRUCache \<Rightarrow> LRUCache" where
  "LRUCache_set now key v c =
     (let c1 = (if LRUCache_has c key then c\<lparr>cache_map := Map_delete key (cache_map c)\<rparr> else c);
          c2 = (if LRUCache_size c1 \<ge> maxSize c1 then LRUCache_evictLRU c1 else c1)
      in c2\<lparr>cache_map := Map_set key (v\<lparr>lastAccess := now\<rparr>) (cache_map c2)\<rparr>)"

definition LRUCache_delete :: "string \<Rightarrow> LRUCache \<Rightarrow> bool \<times> LRUCache" where
  "LRUCache_delete key c =
     (Map_has (cache_map c) key, c\<lparr>cache_map := Map_delete key (cache_map c)\<rparr>)"

definition LRUCache_getStale :: "int \<Rightarrow> int \<Rightarrow> LRUCache \<Rightarrow> string list" where
  "LRUCache_getStale now timeoutMs c =
     map fst (filter (\<lambda>p. now - lastAccess (snd p) > timeoutMs) (cache_map c))"

definition LRUCache_keys :: "LRUCache \<Rightarrow> string list" where
  "LRUCache_keys c = map fst (cache_map c)"

definition LRUCache_values :: "LRUCache \<Rightarrow> UserDatabase list" where
  "LRUCache_values c = map snd (cache_map c)"

record CacheStats =
  stats_size :: nat
  stats_maxSize :: nat
  oldestAccessTime :: "int option"

text \<open>
  \<open>getStats\<close>, without \<open>utilizationPercent\<close> (a floating-point quotient, not modelled).
  The oldest access time is the first element of the values sorted by \<open>lastAccess\<close>.
\<close>

definition LRUCache_getStats :: "LRUCache \<Rightarrow> CacheStats" where
  "LRUCache_getStats c =
     \<lparr>stats_size = length (cache_map c),
      stats_maxSize = maxSize c,
      oldestAccessTime =
        (case sort (map lastAccess (LRUCache_values c)) of [] \<Rightarrow> None | t # _ \<Rightarrow> Some t)\<rparr>"

section \<open>The engine and the runtime\<close>

text \<open>
  The statements the manager sends to the engine. The SQL text is abstracted to the
  statement's kind and the values interpolated into it; \<open>UserSql\<close> is the caller's SQL.
\<close>

datatype statement =
    CreateSecretR2 string string string
  | CreateSecretS3 string "string option" string string
  | InstallLoadHttpfs
  | SetCacheHttpfsType cacheType
  | SetPerformance string nat
  | AttachReadOnly string string
  | DetachUser string
  | UserSql string

text \<open>
  The calls on the engine boundary: \<open>DuckDBInstance.create(location)\<close>,
  \<open>instance.connect()\<close>, \<open>connection.run(sql)\<close> and \<open>result.getRowObjects()\<close>.
  Instances and connections are numbered by the position of the call that made them.
\<close>

datatype engine_call =
    CreateInstance string
  | Connect nat
  | Run nat statement
  | GetRowObjects nat

text \<open>
  A promise is rejected with a thrown value or resolved with a value. An awaited promise
  that is rejected throws at the \<open>await\<close>.
\<close>

datatype 'a outcome = Rejected thrown | Resolved 'a

type_synonym row = string

text \<open>
  The engine is a parameter, in two parts. \<open>reply\<close> is any function from the calls made so
  far and the next call to the outcome of that call (the rows matter for \<open>getRowObjects\<close>
  only). \<open>completed\<close> is the order in which the engine finishes its work: when the calls
  \<open>calls\<close> have been made and the caller of the last one goes on, \<open>completed calls k\<close> says
  whether the promise of the call at position \<open>k\<close> has settled by then. It matters only for
  a call whose promise the manager does not await at once.
\<close>

record engine =
  reply :: "engine_call list \<Rightarrow> engine_call \<Rightarrow> row list outcome"
  completed :: "engine_call list \<Rightarrow> nat \<Rightarrow> bool"

section \<open>The manager (src/DuckPond.ts)\<close>

text \<open>
  A call of \<open>detachUser\<close> that nobody awaits (\<open>evictLRU\<close> and the timer callback start it
  inside \<open>forEach(async ...)\<close>) and that is suspended at its \<open>await\<close> of the \<open>DETACH\<close>:
  the tenant, the position of the \<open>DETACH\<close> in the log of engine calls, and the outcome the
  engine gives it.
\<close>

record suspended_detach =
  sd_userId :: string
  sd_call :: nat
  sd_outcome :: "row list outcome"

text \<open>
  The fields of the class \<open>DuckPond\<close> (\<open>instance\<close> is named \<open>instance_ref\<close>), and the
  part of the runtime the manager acts on: the log of engine calls, the interval timers that
  are active, the number of timers created so far, and the calls of \<open>detachUser\<close> that are
  suspended.

  The operations of the caller run one after the other, and an awaited engine call settles
  before the statement after it. The current time is the parameter \<open>now\<close> of an operation,
  read by every \<open>new Date()\<close> in it.

  A suspended \<open>detachUser\<close> resumes at one of two moments. The first is while
  \<open>getUserConnection\<close> waits for \<open>connect\<close> and for the attach step, before its
  \<open>cache.set\<close>: it resumes there when the engine has completed the \<open>DETACH\<close> by then
  (\<open>resume_completed\<close>). The second is any moment between two operations (\<open>resume_at\<close>).
  No other moment is modelled: every other operation touches the cache only before it waits
  for the engine, or only deletes from it afterwards, so a \<open>detachUser\<close> that resumes while
  it waits leaves the state that resuming right after the operation leaves.
\<close>

record DuckPond =
  instance_ref :: "nat option"
  cache :: LRUCache
  config :: ResolvedConfig
  evictionTimer :: "nat option"
  initialized :: bool
  engine_log :: "engine_call list"
  active_timers :: "nat list"
  timers_created :: nat
  suspended :: "suspended_detach list"

text \<open>JavaScript's \<open>a || b\<close> on an optional string or number: a falsy \<open>a\<close> gives \<open>b\<close>.\<close>

definition or_string :: "string option \<Rightarrow> string \<Rightarrow> string" where
  "or_string a b = (case a of None \<Rightarrow> b | Some x \<Rightarrow> if x = [] then b else x)"

definition or_nat :: "nat option \<Rightarrow> nat \<Rightarrow> nat" where
  "or_nat a b = (case a of None \<Rightarrow> b | Some x \<Rightarrow> if x = 0 then b else x)"

definition or_int :: "int option \<Rightarrow> int \<Rightarrow> int" where
  "or_int a b = (case a of None \<Rightarrow> b | Some x \<Rightarrow> if x = 0 then b else x)"

definition resolve_config :: "DuckPondConfig \<Rightarrow> ResolvedConfig" where
  "resolve_config cfg =
     \<lparr>memoryLimit = or_string (cfg_memoryLimit cfg) ''4GB'',
      threads = or_nat (cfg_threads cfg) 4,
      tempDir = or_string (cfg_tempDir cfg) ''/tmp/duckpond'',
      maxActiveUsers = or_nat (cfg_maxActiveUsers cfg) 10,
      evictionTimeout = or_int (cfg_evictionTimeout cfg) 300000,
      cacheType = (case cfg_cacheType cfg of None \<Rightarrow> Disk | Some t \<Rightarrow> t),
      cacheDir = or_string (cfg_cacheDir cfg) ''/tmp/duckpond-cache'',
      strategy = (case cfg_strategy cfg of None \<Rightarrow> Parquet | Some t \<Rightarrow> t),
      r2 = cfg_r2 cfg,
      s3 = cfg_s3 cfg\<rparr>"

text \<open>The constructor.\<close>

definition new_DuckPond :: "DuckPondConfig \<Rightarrow> DuckPond" where
  "new_DuckPond cfg =
     \<lparr>instance_ref = None,
      cache = new_LRUCache (maxActiveUsers (resolve_config cfg)),
      config = resolve_config cfg,
      evictionTimer = None,
      initialized = False,
      engine_log = [],
      active_timers = [],
      timers_created = 0,
      suspended = []\<rparr>"

definition call_engine :: "engine \<Rightarrow> engine_call \<Rightarrow> DuckPond \<Rightarrow> row list outcome \<times> DuckPond" where
  "call_engine eng c s = (reply eng (engine_log s) c, s\<lparr>engine_log := engine_log s @ [c]\<rparr>)"

text \<open>
  The statements of \<open>setupCloudStorage\<close>, in the order it runs them: the secret of the
  configured store, the extensions and the cache type when a store is configured, and the
  performance settings.
\<close>

definition s3_endpoint_clause :: "s3_config \<Rightarrow> string option" where
  "s3_endpoint_clause c =
     (case s3_endpoint c of None \<Rightarrow> None | Some e \<Rightarrow> if e = [] then None else Some e)"

definition setup_statements :: "ResolvedConfig \<Rightarrow> statement list" where
  "setup_statements cfg =
     (case r2 cfg of
        Some r \<Rightarrow> [CreateSecretR2 (r2_accountId r) (r2_accessKeyId r) (r2_secretAccessKey r)]
      | None \<Rightarrow>
          (case s3 cfg of
             Some c \<Rightarrow> [CreateSecretS3 (s3_region c) (s3_endpoint_clause c)
                          (s3_accessKeyId c) (s3_secretAccessKey c)]
           | None \<Rightarrow> []))
     @ (if r2 cfg \<noteq> None \<or> s3 cfg \<noteq> None
        then [InstallLoadHttpfs, SetCacheHttpfsType (cacheType cfg)] else [])
     @ [SetPerformance (memoryLimit cfg) (threads cfg)]"

text \<open>Awaited \<open>conn.run\<close> calls in sequence inside one \<open>try\<close>: the first throw ends them.\<close>

fun run_all :: "engine \<Rightarrow> nat \<Rightarrow> statement list \<Rightarrow> DuckPond \<Rightarrow> thrown option \<times> DuckPond" where
  "run_all eng conn [] s = (None, s)"
| "run_all eng conn (q # qs) s =
     (case call_engine eng (Run conn q) s of
        (Rejected t, s1) \<Rightarrow> (Some t, s1)
      | (Resolved _, s1) \<Rightarrow> run_all eng conn qs s1)"

text \<open>\<open>setupCloudStorage\<close>: \<open>instance.connect()\<close> is awaited outside the \<open>try\<close>.\<close>

definition setupCloudStorage :: "engine \<Rightarrow> DuckPond \<Rightarrow> unit DuckPondResult outcome \<times> DuckPond" where
  "setupCloudStorage eng s =
     (case instance_ref s of
        None \<Rightarrow> (Resolved (notInitialized ()), s)
      | Some inst \<Rightarrow>
          (case call_engine eng (Connect inst) s of
             (Rejected t, s1) \<Rightarrow> (Rejected t, s1)
           | (Resolved _, s1) \<Rightarrow>
               (case run_all eng (length (engine_log s)) (setup_statements (config s1)) s1 of
                  (Some t, s2) \<Rightarrow>
                    (Resolved (r2ConnectionError ''Failed to setup cloud storage'' (Some t)), s2)
                | (None, s2) \<Rightarrow> (Resolved (success ()), s2))))"

definition startEvictionTimer :: "DuckPond \<Rightarrow> DuckPond" where
  "startEvictionTimer s =
     s\<lparr>evictionTimer := Some (timers_created s),
       active_timers := timers_created s # active_timers s,
       timers_created := Suc (timers_created s)\<rparr>"

text \<open>
  \<open>init\<close>: everything after the first check runs inside one \<open>try\<close>, whose \<open>catch\<close>
  returns \<open>Left\<close> with the code \<open>CONNECTION_FAILED\<close>.
\<close>

definition init :: "engine \<Rightarrow> DuckPond \<Rightarrow> unit DuckPondResult outcome \<times> DuckPond" where
  "init eng s =
     (if initialized s then (Resolved (success ()), s)
      else
        (case call_engine eng (CreateInstance '':memory:'') s of
           (Rejected t, s1) \<Rightarrow> (Resolved (Inl (toDuckPondError t CONNECTION_FAILED)), s1)
         | (Resolved _, s1) \<Rightarrow>
             (case setupCloudStorage eng (s1\<lparr>instance_ref := Some (length (engine_log s))\<rparr>) of
                (Rejected t, s2) \<Rightarrow> (Resolved (Inl (toDuckPondError t CONNECTION_FAILED)), s2)
              | (Resolved (Inl err), s2) \<Rightarrow>
                  (Resolved (Inl (toDuckPondError
                     (JsError (if message err = [] then ''Cloud storage setup failed''
                               else message err)) CONNECTION_FAILED)), s2)
              | (Resolved (Inr _), s2) \<Rightarrow>
                  (Resolved (success ()), (startEvictionTimer s2)\<lparr>initialized := True\<rparr>))))"

text \<open>
  \<open>detachUser\<close>, as a call that is awaited (a manual release, and the calls that \<open>close\<close>
  awaits with \<open>Promise.all\<close>): no check of \<open>initialized\<close>. \<open>cache.delete\<close> stands inside
  the \<open>try\<close>, after the \<open>DETACH\<close>.
\<close>

definition detachUser :: "engine \<Rightarrow> int \<Rightarrow> string \<Rightarrow> DuckPond \<Rightarrow> unit DuckPondResult outcome \<times> DuckPond" where
  "detachUser eng now uid s =
     (case LRUCache_get now uid (cache s) of
        (None, _) \<Rightarrow> (Resolved (success ()), s)
      | (Some userDb, c1) \<Rightarrow>
          (if strategy (config s) = Duckdb then
             (case call_engine eng (Run (connection userDb) (DetachUser uid)) (s\<lparr>cache := c1\<rparr>) of
                (Rejected t, s1) \<Rightarrow> (Resolved (storageError ''Failed to detach user'' (Some t)), s1)
              | (Resolved _, s1) \<Rightarrow>
                  (Resolved (success ()), s1\<lparr>cache := snd (LRUCache_delete uid (cache s1))\<rparr>))
           else (Resolved (success ()), s\<lparr>cache := snd (LRUCache_delete uid c1)\<rparr>)))"

text \<open>
  \<open>detachUser\<close>, as a call that nobody awaits, in its two parts. The first part runs at
  once, up to the first \<open>await\<close>: for a cached tenant under the duckdb strategy it ends with
  the \<open>DETACH\<close> sent and the call suspended; in every other case \<open>detachUser\<close> has no
  \<open>await\<close> on its way and runs to its end. The second part runs when the suspended call
  resumes: \<open>cache.delete\<close> when the \<open>DETACH\<close> resolved, nothing when it threw. The result
  of the call is dropped.
\<close>

definition detachUser_until_await :: "engine \<Rightarrow> int \<Rightarrow> string \<Rightarrow> DuckPond \<Rightarrow> DuckPond" where
  "detachUser_until_await eng now uid s =
     (case LRUCache_get now uid (cache s) of
        (None, _) \<Rightarrow> s
      | (Some userDb, c1) \<Rightarrow>
          (if strategy (config s) = Duckdb then
             (case call_engine eng (Run (connection userDb) (DetachUser uid)) (s\<lparr>cache := c1\<rparr>) of
                (out, s1) \<Rightarrow>
                  s1\<lparr>suspended := suspended s1 @
                       [\<lparr>sd_userId = uid, sd_call = length (engine_log s), sd_outcome = out\<rparr>]\<rparr>)
           else s\<lparr>cache := snd (LRUCache_delete uid c1)\<rparr>))"

definition detachUser_after_await :: "suspended_detach \<Rightarrow> DuckPond \<Rightarrow> DuckPond" where
  "detachUser_after_await d s =
     (case sd_outcome d of
        Rejected t \<Rightarrow> s
      | Resolved _ \<Rightarrow> s\<lparr>cache := snd (LRUCache_delete (sd_userId d) (cache s))\<rparr>)"

text \<open>
  The suspended calls whose \<open>DETACH\<close> the engine has completed resume, oldest first; the
  others stay suspended.
\<close>

definition resume_completed :: "engine \<Rightarrow> DuckPond \<Rightarrow> DuckPond" where
  "resume_completed eng s =
     fold detachUser_after_await
       (filter (\<lambda>d. completed eng (engine_log s) (sd_call d)) (suspended s))
       (s\<lparr>suspended := filter (\<lambda>d. \<not> completed eng (engine_log s) (sd_call d)) (suspended s)\<rparr>)"

text \<open>Between two operations: the suspended call number \<open>k\<close>, if there is one, resumes.\<close>

definition resume_at :: "nat \<Rightarrow> DuckPond \<Rightarrow> DuckPond" where
  "resume_at k s =
     (if k < length (suspended s)
      then detachUser_after_await (suspended s ! k)
             (s\<lparr>suspended := take k (suspended s) @ drop (Suc k) (suspended s)\<rparr>)
      else s)"

text \<open>
  \<open>evictLRU\<close>: \<open>detachUser\<close> is started for the least recently used tenant and not
  awaited, so \<open>evictLRU\<close> returns once the first part of \<open>detachUser\<close> has run.
\<close>

definition evictLRU :: "engine \<Rightarrow> int \<Rightarrow> DuckPond \<Rightarrow> DuckPond" where
  "evictLRU eng now s =
     (case LRUCache_getLRU (cache s) of
        None \<Rightarrow> s
      | Some uid \<Rightarrow> detachUser_until_await eng now uid s)"

text \<open>
  The callback of the eviction timer, which fires only while the timer is active:
  \<open>detachUser\<close> is started, and not awaited, for every stale key, as \<open>getStale\<close> lists them
  at the start.
\<close>

definition evictionTimer_fires :: "engine \<Rightarrow> int \<Rightarrow> DuckPond \<Rightarrow> DuckPond" where
  "evictionTimer_fires eng now s =
     (case evictionTimer s of
        None \<Rightarrow> s
      | Some t \<Rightarrow>
          if t \<in> set (active_timers s)
          then fold (detachUser_until_await eng now)
                 (LRUCache_getStale now (evictionTimeout (config s)) (cache s)) s
          else s)"

definition bucket_text :: "ResolvedConfig \<Rightarrow> string" where
  "bucket_text cfg =
     (let s3_part = (case s3 cfg of None \<Rightarrow> ''undefined'' | Some c \<Rightarrow> s3_bucket c)
      in case r2 cfg of
           None \<Rightarrow> s3_part
         | Some r \<Rightarrow> if r2_bucket r = [] then s3_part else r2_bucket r)"

definition protocol_text :: "ResolvedConfig \<Rightarrow> string" where
  "protocol_text cfg = (if r2 cfg \<noteq> None then ''r2'' else ''s3'')"

text \<open>\<open>attachUserDatabase\<close>: its body is one \<open>try\<close>, so its promise always resolves.\<close>

definition attachUserDatabase :: "engine \<Rightarrow> nat \<Rightarrow> string \<Rightarrow> DuckPond \<Rightarrow> unit DuckPondResult \<times> DuckPond" where
  "attachUserDatabase eng conn uid s =
     (if strategy (config s) = Duckdb then
        (case call_engine eng
                (Run conn (AttachReadOnly
                   (protocol_text (config s) @ ''://'' @ bucket_text (config s) @ ''/users/'' @ uid
                      @ ''/database.duckdb'') uid)) s of
           (Rejected t, s1) \<Rightarrow> (storageError ''Failed to attach user database'' (Some t), s1)
         | (Resolved _, s1) \<Rightarrow> (success (), s1))
      else (success (), s))"

text \<open>
  \<open>getUserConnection\<close>: \<open>instance.connect()\<close> is awaited outside any \<open>try\<close>, so its
  rejection rejects the promise of \<open>getUserConnection\<close>. \<open>await this.evictLRU()\<close> waits
  for \<open>evictLRU\<close> only, not for the \<open>detachUser\<close> it started. Between the eviction and
  \<open>cache.set\<close> the function waits for \<open>connect\<close> and for the attach step; the suspended
  calls of \<open>detachUser\<close> that the engine has completed by then resume before \<open>cache.set\<close>.
  On the paths that return without \<open>cache.set\<close> the suspended calls stay suspended: they
  resume after the operation, to the same effect.
\<close>

definition getUserConnection :: "engine \<Rightarrow> int \<Rightarrow> string \<Rightarrow> DuckPond \<Rightarrow> nat DuckPondResult outcome \<times> DuckPond" where
  "getUserConnection eng now uid s =
     (if \<not> initialized s then (Resolved (notInitialized ()), s)
      else
        (case LRUCache_get now uid (cache s) of
           (Some userDb, c1) \<Rightarrow> (Resolved (success (connection userDb)), s\<lparr>cache := c1\<rparr>)
         | (None, _) \<Rightarrow>
             (let s1 = (if LRUCache_size (cache s) \<ge> maxActiveUsers (config s)
                        then evictLRU eng now s else s)
              in case instance_ref s1 of
                   None \<Rightarrow> (Resolved (notInitialized ()), s1)
                 | Some inst \<Rightarrow>
                     (case call_engine eng (Connect inst) s1 of
                        (Rejected t, s2) \<Rightarrow> (Rejected t, s2)
                      | (Resolved _, s2) \<Rightarrow>
                          (case attachUserDatabase eng (length (engine_log s1)) uid s2 of
                             (Inl e, sc) \<Rightarrow> (Resolved (Inl e), sc)
                           | (Inr _, sc) \<Rightarrow>
                               (Resolved (success (length (engine_log s1))),
                                (resume_completed eng sc)
                                  \<lparr>cache := LRUCache_set now uid
                                     \<lparr>userId = uid, connection = length (engine_log s1),
                                      lastAccess = now, attached = True, memoryUsage = None\<rparr>
                                     (cache (resume_completed eng sc))\<rparr>))))))"

text \<open>
  \<open>query\<close>: \<open>getUserConnection\<close> is awaited outside the \<open>try\<close>; \<open>conn.run\<close> and
  \<open>getRowObjects\<close> are inside it.
\<close>

definition query :: "engine \<Rightarrow> int \<Rightarrow> string \<Rightarrow> string \<Rightarrow> DuckPond \<Rightarrow> row list DuckPondResult outcome \<times> DuckPond" where
  "query eng now uid sql s =
     (case getUserConnection eng now uid s of
        (Rejected t, s1) \<Rightarrow> (Rejected t, s1)
      | (Resolved (Inl e), s1) \<Rightarrow> (Resolved (Inl e), s1)
      | (Resolved (Inr conn), s1) \<Rightarrow>
          (case call_engine eng (Run conn (UserSql sql)) s1 of
             (Rejected t, s2) \<Rightarrow> (Resolved (Inl (toDuckPondError t QUERY_EXECUTION_ERROR)), s2)
           | (Resolved _, s2) \<Rightarrow>
               (case call_engine eng (GetRowObjects conn) s2 of
                  (Rejected t, sc) \<Rightarrow>
                    (Resolved (Inl (toDuckPondError t QUERY_EXECUTION_ERROR)), sc)
                | (Resolved rows, sc) \<Rightarrow> (Resolved (success rows), sc))))"

definition execute :: "engine \<Rightarrow> int \<Rightarrow> string \<Rightarrow> string \<Rightarrow> DuckPond \<Rightarrow> unit DuckPondResult outcome \<times> DuckPond" where
  "execute eng now uid sql s =
     (case getUserConnection eng now uid s of
        (Rejected t, s1) \<Rightarrow> (Rejected t, s1)
      | (Resolved (Inl e), s1) \<Rightarrow> (Resolved (Inl e), s1)
      | (Resolved (Inr conn), s1) \<Rightarrow>
          (case call_engine eng (Run conn (UserSql sql)) s1 of
             (Rejected t, s2) \<Rightarrow> (Resolved (Inl (toDuckPondError t QUERY_EXECUTION_ERROR)), s2)
           | (Resolved _, s2) \<Rightarrow> (Resolved (success ()), s2)))"

definition isAttached :: "DuckPond \<Rightarrow> string \<Rightarrow> bool" where
  "isAttached s uid = LRUCache_has (cache s) uid"

text \<open>\<open>getUserStats\<close>: no check of \<open>initialized\<close>; it reads the entry with \<open>cache.get\<close>.\<close>

definition getUserStats :: "int \<Rightarrow> string \<Rightarrow> DuckPond \<Rightarrow> UserStats DuckPondResult outcome \<times> DuckPond" where
  "getUserStats now uid s =
     (case LRUCache_get now uid (cache s) of
        (cached, c1) \<Rightarrow>
          (Resolved (success
             \<lparr>stats_userId = uid,
              stats_attached = (cached \<noteq> None),
              stats_lastAccess = (case cached of None \<Rightarrow> 0 | Some u \<Rightarrow> lastAccess u),
              stats_memoryUsage =
                (case cached of
                   None \<Rightarrow> 0
                 | Some u \<Rightarrow> (case memoryUsage u of None \<Rightarrow> 0 | Some m \<Rightarrow> m)),
              storageUsage = 0,
              queryCount = 0\<rparr>),
           s\<lparr>cache := c1\<rparr>))"

definition listUsers :: "DuckPond \<Rightarrow> ListUsersResult" where
  "listUsers s =
     \<lparr>users = LRUCache_keys (cache s),
      count = stats_size (LRUCache_getStats (cache s)),
      list_maxActiveUsers = stats_maxSize (LRUCache_getStats (cache s))\<rparr>"

text \<open>
  \<open>close\<close>: clears the timer (the field \<open>evictionTimer\<close> keeps its value), starts
  \<open>detachUser\<close> for every key the cache holds at that moment, awaits them all with
  \<open>Promise.all\<close> and drops their results. Every one of these calls reads its entry before
  any of them deletes; the deletions leave the cache that the calls leave one after the other.
\<close>

definition close :: "engine \<Rightarrow> int \<Rightarrow> DuckPond \<Rightarrow> unit DuckPondResult outcome \<times> DuckPond" where
  "close eng now s =
     (let s1 = (case evictionTimer s of
                  None \<Rightarrow> s
                | Some t \<Rightarrow> s\<lparr>active_timers := removeAll t (active_timers s)\<rparr>);
          s2 = fold (\<lambda>uid st. snd (detachUser eng now uid st)) (LRUCache_keys (cache s1)) s1
      in (Resolved (success ()), s2\<lparr>instance_ref := None, initialized := False\<rparr>))"

section \<open>Sequences of operations\<close>

text \<open>
  The mutating operations of the cache, and the operations on the manager (the public
  methods, \<open>getUserConnection\<close>, a firing of the eviction timer, and a suspended
  \<open>detachUser\<close> that resumes), each with the time at which it runs. A sequence is run from
  left to right; only the state is kept.
\<close>

datatype cache_op =
    Op_get int string
  | Op_set int string UserDatabase
  | Op_delete string

fun apply_cache_op :: "cache_op \<Rightarrow> LRUCache \<Rightarrow> LRUCache" where
  "apply_cache_op (Op_get now key) c = snd (LRUCache_get now key c)"
| "apply_cache_op (Op_set now key v) c = LRUCache_set now key v c"
| "apply_cache_op (Op_delete key) c = snd (LRUCache_delete key c)"

definition run_cache_ops :: "cache_op list \<Rightarrow> LRUCache \<Rightarrow> LRUCache" where
  "run_cache_ops ops c = fold apply_cache_op ops c"

datatype pond_op =
    Op_init
  | Op_getUserConnection int string
  | Op_query int string string
  | Op_execute int string string
  | Op_detachUser int string
  | Op_getUserStats int string
  | Op_timer int
  | Op_close int
  | Op_resume nat

fun apply_pond_op :: "engine \<Rightarrow> pond_op \<Rightarrow> DuckPond \<Rightarrow> DuckPond" where
  "apply_pond_op eng Op_init s = snd (init eng s)"
| "apply_pond_op eng (Op_getUserConnection now uid) s = snd (getUserConnection eng now uid s)"
| "apply_pond_op eng (Op_query now uid sql) s = snd (query eng now uid sql s)"
| "apply_pond_op eng (Op_execute now uid sql) s = snd (execute eng now uid sql s)"
| "apply_pond_op eng (Op_detachUser now uid) s = snd (detachUser eng now uid s)"
| "apply_pond_op eng (Op_getUserStats now uid) s = snd (getUserStats now uid s)"
| "apply_pond_op eng (Op_timer now) s = evictionTimer_fires eng now s"
| "apply_pond_op eng (Op_close now) s = snd (close eng now s)"
| "apply_pond_op eng (Op_resume k) s = resume_at k s"

definition run_pond_ops :: "engine \<Rightarrow> pond_op list \<Rightarrow> DuckPond \<Rightarrow> DuckPond" where
  "run_pond_ops eng ops s = fold (apply_pond_op eng) ops s"

section \<open>Notions used in the statements\<close>

text \<open>
  The capacity invariant of a manager whose cache was built with capacity \<open>n\<close>.
\<close>

definition capacity_inv :: "nat \<Rightarrow> DuckPond \<Rightarrow> bool" where
  "capacity_inv n s = (0 < n \<and> maxSize (cache s) = n \<and> LRUCache_size (cache s) \<le> n)"

text \<open>An engine on which no call ever throws.\<close>

definition engine_never_rejects :: "engine \<Rightarrow> bool" where
  "engine_never_rejects eng = (\<forall>calls c. \<exists>rows. reply eng calls c = Resolved rows)"



text \<open>
  The part of \<open>getUserConnection\<close> after the eviction step, named for the proofs
  (\<open>getUserConnection_miss\<close> relates the two).
\<close>

definition connect_attach_cache ::
  "engine \<Rightarrow> int \<Rightarrow> string \<Rightarrow> DuckPond \<Rightarrow> nat DuckPondResult outcome \<times> DuckPond" where
  "connect_attach_cache eng now uid s1 =
     (case instance_ref s1 of
        None \<Rightarrow> (Resolved (notInitialized ()), s1)
      | Some inst \<Rightarrow>
          (case call_engine eng (Connect inst) s1 of
             (Rejected t, s2) \<Rightarrow> (Rejected t, s2)
           | (Resolved _, s2) \<Rightarrow>
               (case attachUserDatabase eng (length (engine_log s1)) uid s2 of
                  (Inl e, sc) \<Rightarrow> (Resolved (Inl e), sc)
                | (Inr _, sc) \<Rightarrow>
                    (Resolved (success (length (engine_log s1))),
                     (resume_completed eng sc)
                       \<lparr>cache := LRUCache_set now uid
                          \<lparr>userId = uid, connection = length (engine_log s1),
                           lastAccess = now, attached = True, memoryUsage = None\<rparr>
                          (cache (resume_completed eng sc))\<rparr>))))"

section \<open>Example inputs\<close>

text \<open>
  The empty configuration \<open>new DuckPond({})\<close>, a configuration with a capacity and a
  strategy, and cache entries.
\<close>

definition empty_config :: DuckPondConfig where
  "empty_config =
     \<lparr>cfg_r2 = None, cfg_s3 = None, cfg_memoryLimit = None, cfg_threads = None,
      cfg_tempDir = None, cfg_maxActiveUsers = None, cfg_evictionTimeout = None,
      cfg_cacheType = None, cfg_cacheDir = None, cfg_strategy = None\<rparr>"

definition config_with :: "nat \<Rightarrow> strategy \<Rightarrow> DuckPondConfig" where
  "config_with n st = empty_config\<lparr>cfg_maxActiveUsers := Some n, cfg_strategy := Some st\<rparr>"

definition example_db :: "string \<Rightarrow> UserDatabase" where
  "example_db uid =
     \<lparr>userId = uid, connection = 0, lastAccess = 0, attached = True, memoryUsage = None\<rparr>"

definition two_entries :: LRUCache where
  "two_entries =
     \<lparr>cache_map = [(''a'', (example_db ''a'')\<lparr>lastAccess := 0\<rparr>),
                   (''b'', (example_db ''b'')\<lparr>lastAccess := 10\<rparr>)],
      maxSize = 2\<rparr>"

text \<open>
  Engines: one on which every call succeeds and returns no rows; engines that throw on one
  kind of call only (\<open>DETACH\<close>, the caller's SQL, the performance settings, the creation
  of the instance, every \<open>connect\<close> after the first), all of which complete their calls in
  the order in which they were made; and an engine on which every call succeeds but a call
  that is not awaited is completed only after the calls made later.
\<close>

definition engine_ok :: engine where
  "engine_ok =
     \<lparr>reply = (\<lambda>calls c. Resolved []),
      completed = (\<lambda>calls k. True)\<rparr>"

definition engine_detach_fails :: engine where
  "engine_detach_fails =
     \<lparr>reply = (\<lambda>calls c. case c of
                 Run conn (DetachUser uid) \<Rightarrow> Rejected (JsError ''detach failed'')
               | _ \<Rightarrow> Resolved []),
      completed = (\<lambda>calls k. True)\<rparr>"


definition engine_setup_fails :: engine where
  "engine_setup_fails =
     \<lparr>reply = (\<lambda>calls c. case c of
                 Run conn (SetPerformance m n) \<Rightarrow> Rejected (JsError ''out of memory'')
               | _ \<Rightarrow> Resolved []),
      completed = (\<lambda>calls k. True)\<rparr>"

definition engine_create_fails :: engine where
  "engine_create_fails =
     \<lparr>reply = (\<lambda>calls c. case c of
                 CreateInstance loc \<Rightarrow> Rejected (JsError ''cannot create instance'')
               | _ \<Rightarrow> Resolved []),
      completed = (\<lambda>calls k. True)\<rparr>"

definition engine_connect_fails :: engine where
  "engine_connect_fails =
     \<lparr>reply = (\<lambda>calls c. case c of
                 Connect i \<Rightarrow> if Connect i \<in> set calls then Rejected (JsError ''connect failed'')
                              else Resolved []
               | _ \<Rightarrow> Resolved []),
      completed = (\<lambda>calls k. True)\<rparr>"



definition two_attached :: DuckPond where
  "two_attached =
     run_pond_ops engine_ok
       [Op_init, Op_getUserConnection 1 ''a'', Op_getUserConnection 2 ''b'']
       (new_DuckPond (config_with 2 Parquet))"

definition three_attached :: "engine \<Rightarrow> strategy \<Rightarrow> DuckPond" where
  "three_attached eng st =
     run_pond_ops eng
       [Op_init, Op_getUserConnection 1 ''a'', Op_getUserConnection 2 ''b'',
        Op_getUserConnection 3 ''c'']
       (new_DuckPond (config_with 3 st))"

definition stats_scenario :: "bool \<Rightarrow> DuckPond" where
  "stats_scenario with_stats =
     run_pond_ops engine_ok
       ((if with_stats then [Op_getUserStats 150 ''a''] else []) @ [Op_getUserConnection 160 ''c''])
       two_attached"

section \<open>Facts about the map and the cache\<close>

lemma Map_delete_length: "length (Map_delete k m) \<le> length m"
  by (simp add: Map_delete_def)

lemma Map_set_length: "length (Map_set k v m) \<le> Suc (length m)"
  by (induction m) auto

lemma Map_set_keys: "fst ` set (Map_set k v m) = insert k (fst ` set m)"
  by (induction m) auto

lemma Map_delete_keys: "fst ` set (Map_delete k m) = fst ` set m - {k}"
  by (auto simp: Map_delete_def)

lemma Map_set_absent: "k \<notin> fst ` set m \<Longrightarrow> Map_set k v m = m @ [(k, v)]"
  by (induction m) auto

lemma Map_delete_distinct: "distinct (map fst m) \<Longrightarrow> distinct (map fst (Map_delete k m))"
  by (simp add: Map_delete_def distinct_map_filter)

lemma Map_set_distinct: "distinct (map fst m) \<Longrightarrow> distinct (map fst (Map_set k v m))"
  by (induction m) (auto simp: Map_set_keys)

lemma Map_delete_length_less: "k \<in> fst ` set m \<Longrightarrow> length (Map_delete k m) < length m"
  unfolding Map_delete_def by (auto intro: length_filter_less)

lemma map_of_SomeD_keys: "map_of m k = Some v \<Longrightarrow> k \<in> fst ` set m"
  by (metis domI dom_map_of_conv_image_fst)

lemma LRUCache_get_maxSize: "maxSize (snd (LRUCache_get now key c)) = maxSize c"
  by (simp add: LRUCache_get_def Let_def split: option.splits)

lemma LRUCache_get_size: "LRUCache_size (snd (LRUCache_get now key c)) \<le> LRUCache_size c"
proof (cases "map_of (cache_map c) key")
  case None
  then show ?thesis by (simp add: LRUCache_get_def)
next
  case (Some item)
  then have "length (Map_delete key (cache_map c)) < length (cache_map c)"
    by (intro Map_delete_length_less map_of_SomeD_keys)
  moreover have "length (Map_set key (item\<lparr>lastAccess := now\<rparr>) (Map_delete key (cache_map c)))
      \<le> Suc (length (Map_delete key (cache_map c)))"
    by (rule Map_set_length)
  ultimately show ?thesis
    using Some by (simp add: LRUCache_get_def LRUCache_size_def Let_def)
qed

lemma LRUCache_delete_maxSize: "maxSize (snd (LRUCache_delete key c)) = maxSize c"
  by (simp add: LRUCache_delete_def)

lemma LRUCache_delete_size: "LRUCache_size (snd (LRUCache_delete key c)) \<le> LRUCache_size c"
  by (simp add: LRUCache_delete_def LRUCache_size_def Map_delete_length)

lemma LRUCache_evictLRU_maxSize: "maxSize (LRUCache_evictLRU c) = maxSize c"
  by (simp add: LRUCache_evictLRU_def split: option.splits)

lemma LRUCache_evictLRU_size:
  "cache_map c \<noteq> [] \<Longrightarrow> LRUCache_size (LRUCache_evictLRU c) < LRUCache_size c"
  by (cases "cache_map c")
     (auto simp: LRUCache_evictLRU_def LRUCache_getLRU_def LRUCache_size_def Map_delete_def
        less_Suc_eq_le)

lemma LRUCache_set_maxSize: "maxSize (LRUCache_set now key v c) = maxSize c"
  by (simp add: LRUCache_set_def Let_def LRUCache_evictLRU_maxSize)

lemma LRUCache_set_size:
  assumes "0 < maxSize c" and "LRUCache_size c \<le> maxSize c"
  shows "LRUCache_size (LRUCache_set now key v c) \<le> maxSize c"
proof -
  define c1 where "c1 = (if LRUCache_has c key then c\<lparr>cache_map := Map_delete key (cache_map c)\<rparr> else c)"
  define c2 where "c2 = (if LRUCache_size c1 \<ge> maxSize c1 then LRUCache_evictLRU c1 else c1)"
  have m1: "maxSize c1 = maxSize c" by (simp add: c1_def)
  have l1: "LRUCache_size c1 \<le> maxSize c"
    using assms(2) Map_delete_length [of key "cache_map c"]
    by (auto simp: c1_def LRUCache_size_def)
  have l2: "LRUCache_size c2 < maxSize c"
  proof (cases "LRUCache_size c1 \<ge> maxSize c1")
    case True
    with assms(1) m1 have "cache_map c1 \<noteq> []" by (auto simp: LRUCache_size_def)
    from LRUCache_evictLRU_size [OF this] l1 True show ?thesis by (simp add: c2_def)
  next
    case False
    then show ?thesis by (simp add: c2_def m1)
  qed
  have "LRUCache_set now key v c = c2\<lparr>cache_map := Map_set key (v\<lparr>lastAccess := now\<rparr>) (cache_map c2)\<rparr>"
    by (simp add: LRUCache_set_def Let_def c1_def c2_def)
  then show ?thesis
    using l2 Map_set_length [of key "v\<lparr>lastAccess := now\<rparr>" "cache_map c2"]
    by (simp add: LRUCache_size_def)
qed

lemma LRUCache_get_bound:
  "LRUCache_get now key c = (r, c1) \<Longrightarrow> maxSize c1 = maxSize c \<and> LRUCache_size c1 \<le> LRUCache_size c"
  using LRUCache_get_maxSize [of now key c] LRUCache_get_size [of now key c] by simp

section \<open>The capacity invariant of the manager\<close>

lemma detachUser_frame:
  "config (snd (detachUser eng now uid s)) = config s
   \<and> initialized (snd (detachUser eng now uid s)) = initialized s
   \<and> instance_ref (snd (detachUser eng now uid s)) = instance_ref s
   \<and> evictionTimer (snd (detachUser eng now uid s)) = evictionTimer s
   \<and> active_timers (snd (detachUser eng now uid s)) = active_timers s
   \<and> timers_created (snd (detachUser eng now uid s)) = timers_created s"
  by (simp add: detachUser_def call_engine_def split: prod.splits option.splits outcome.splits)

lemma detachUser_cache:
  "maxSize (cache (snd (detachUser eng now uid s))) = maxSize (cache s)
   \<and> LRUCache_size (cache (snd (detachUser eng now uid s))) \<le> LRUCache_size (cache s)"
proof -
  obtain r c1 where g: "LRUCache_get now uid (cache s) = (r, c1)" by force
  note b = LRUCache_get_bound [OF g]
  have d: "maxSize (snd (LRUCache_delete uid c1)) = maxSize (cache s)
      \<and> LRUCache_size (snd (LRUCache_delete uid c1)) \<le> LRUCache_size (cache s)"
    using b LRUCache_delete_maxSize [of uid c1] LRUCache_delete_size [of uid c1] by simp
  show ?thesis
    using b d g
    by (simp add: detachUser_def call_engine_def split: option.splits outcome.splits)
qed

lemma detachUser_inv: "capacity_inv n s \<Longrightarrow> capacity_inv n (snd (detachUser eng now uid s))"
  using detachUser_cache [of eng now uid s] by (simp add: capacity_inv_def)

lemma fold_detachUser_inv:
  "capacity_inv n s \<Longrightarrow> capacity_inv n (fold (\<lambda>uid st. snd (detachUser eng now uid st)) uids s)"
  by (induction uids arbitrary: s) (simp_all add: detachUser_inv)

lemma detachUser_until_await_cache:
  "maxSize (cache (detachUser_until_await eng now uid s)) = maxSize (cache s)
   \<and> LRUCache_size (cache (detachUser_until_await eng now uid s)) \<le> LRUCache_size (cache s)"
proof -
  obtain r c1 where g: "LRUCache_get now uid (cache s) = (r, c1)" by force
  note b = LRUCache_get_bound [OF g]
  have d: "maxSize (snd (LRUCache_delete uid c1)) = maxSize (cache s)
      \<and> LRUCache_size (snd (LRUCache_delete uid c1)) \<le> LRUCache_size (cache s)"
    using b LRUCache_delete_maxSize [of uid c1] LRUCache_delete_size [of uid c1] by simp
  show ?thesis
    using b d g
    by (simp add: detachUser_until_await_def call_engine_def split: option.splits)
qed

lemma detachUser_until_await_inv:
  "capacity_inv n s \<Longrightarrow> capacity_inv n (detachUser_until_await eng now uid s)"
  using detachUser_until_await_cache [of eng now uid s] by (simp add: capacity_inv_def)

lemma fold_detachUser_until_await_inv:
  "capacity_inv n s \<Longrightarrow> capacity_inv n (fold (detachUser_until_await eng now) uids s)"
  by (induction uids arbitrary: s) (simp_all add: detachUser_until_await_inv)

lemma detachUser_after_await_inv:
  "capacity_inv n s \<Longrightarrow> capacity_inv n (detachUser_after_await d s)"
  using LRUCache_delete_maxSize [of "sd_userId d" "cache s"]
    LRUCache_delete_size [of "sd_userId d" "cache s"]
  by (simp add: detachUser_after_await_def capacity_inv_def split: outcome.splits)

lemma fold_detachUser_after_await_inv:
  "capacity_inv n s \<Longrightarrow> capacity_inv n (fold detachUser_after_await ds s)"
  by (induction ds arbitrary: s) (simp_all add: detachUser_after_await_inv)

lemma resume_completed_inv: "capacity_inv n s \<Longrightarrow> capacity_inv n (resume_completed eng s)"
  unfolding resume_completed_def
  by (rule fold_detachUser_after_await_inv) (simp add: capacity_inv_def)

lemma resume_at_inv: "capacity_inv n s \<Longrightarrow> capacity_inv n (resume_at k s)"
proof -
  assume a: "capacity_inv n s"
  have "capacity_inv n (detachUser_after_await d (s\<lparr>suspended := q\<rparr>))" for d q
    by (rule detachUser_after_await_inv) (use a in \<open>simp add: capacity_inv_def\<close>)
  with a show ?thesis by (simp add: resume_at_def)
qed

lemma evictLRU_inv: "capacity_inv n s \<Longrightarrow> capacity_inv n (evictLRU eng now s)"
  by (simp add: evictLRU_def detachUser_until_await_inv split: option.splits)

lemma evictionTimer_fires_inv: "capacity_inv n s \<Longrightarrow> capacity_inv n (evictionTimer_fires eng now s)"
  by (simp add: evictionTimer_fires_def fold_detachUser_until_await_inv split: option.splits)

lemma run_all_only_log:
  "(snd (run_all eng conn qs s))\<lparr>engine_log := []\<rparr> = s\<lparr>engine_log := []\<rparr>"
  by (induction qs arbitrary: s) (simp_all add: call_engine_def split: outcome.splits)

lemma setupCloudStorage_only_log:
  "(snd (setupCloudStorage eng s))\<lparr>engine_log := []\<rparr> = s\<lparr>engine_log := []\<rparr>"
proof (cases "instance_ref s")
  case None
  then show ?thesis by (simp add: setupCloudStorage_def)
next
  case (Some inst)
  have "(snd (run_all eng (length (engine_log s)) (setup_statements (config s))
        (s\<lparr>engine_log := engine_log s @ [Connect inst]\<rparr>)))\<lparr>engine_log := []\<rparr> = s\<lparr>engine_log := []\<rparr>"
    using run_all_only_log [of eng "length (engine_log s)" "setup_statements (config s)"
          "s\<lparr>engine_log := engine_log s @ [Connect inst]\<rparr>"] by simp
  with Some show ?thesis
    by (simp add: setupCloudStorage_def call_engine_def case_prod_unfold split: option.splits outcome.splits)
qed

lemma only_log_cache: "s'\<lparr>engine_log := []\<rparr> = s\<lparr>engine_log := []\<rparr> \<Longrightarrow> cache s' = cache s"
  by (drule arg_cong [where f = cache]) simp

lemma init_cache: "cache (snd (init eng s)) = cache s"
proof -
  have "cache (snd (setupCloudStorage eng st)) = cache st" for st
    by (rule only_log_cache [OF setupCloudStorage_only_log])
  from this [of "s\<lparr>engine_log := engine_log s @ [CreateInstance '':memory:''],
         instance_ref := Some (length (engine_log s))\<rparr>"]
  show ?thesis
    by (simp add: init_def call_engine_def startEvictionTimer_def case_prod_unfold
        split: outcome.splits sum.splits)
qed

lemma init_inv: "capacity_inv n s \<Longrightarrow> capacity_inv n (snd (init eng s))"
  by (simp add: capacity_inv_def init_cache)

lemma close_inv: "capacity_inv n s \<Longrightarrow> capacity_inv n (snd (close eng now s))"
proof -
  assume a: "capacity_inv n s"
  define s1 where "s1 = (case evictionTimer s of None \<Rightarrow> s
      | Some t \<Rightarrow> s\<lparr>active_timers := removeAll t (active_timers s)\<rparr>)"
  have "capacity_inv n s1" using a by (simp add: s1_def capacity_inv_def split: option.splits)
  then have "capacity_inv n (fold (\<lambda>uid st. snd (detachUser eng now uid st)) (LRUCache_keys (cache s1)) s1)"
    by (rule fold_detachUser_inv)
  then show ?thesis
    by (simp add: close_def Let_def s1_def capacity_inv_def)
qed

lemma getUserStats_inv: "capacity_inv n s \<Longrightarrow> capacity_inv n (snd (getUserStats now uid s))"
  using LRUCache_get_maxSize [of now uid "cache s"] LRUCache_get_size [of now uid "cache s"]
  by (simp add: getUserStats_def capacity_inv_def case_prod_unfold)

lemma attachUserDatabase_cache: "cache (snd (attachUserDatabase eng conn uid s)) = cache s"
  by (simp add: attachUserDatabase_def call_engine_def split: outcome.splits)

lemma getUserConnection_inv:
  assumes "capacity_inv n s"
  shows "capacity_inv n (snd (getUserConnection eng now uid s))"
proof (cases "initialized s")
  case False
  with assms show ?thesis by (simp add: getUserConnection_def)
next
  case True
  obtain r c1 where g: "LRUCache_get now uid (cache s) = (r, c1)" by force
  note b = LRUCache_get_bound [OF g]
  show ?thesis
  proof (cases r)
    case (Some userDb)
    with True g b assms show ?thesis by (simp add: getUserConnection_def capacity_inv_def)
  next
    case None
    define s1 where "s1 = (if LRUCache_size (cache s) \<ge> maxActiveUsers (config s)
                        then evictLRU eng now s else s)"
    have i1: "capacity_inv n s1" using assms by (simp add: s1_def evictLRU_inv)
    have set_ok: "capacity_inv n (st\<lparr>cache := LRUCache_set now uid v (cache st)\<rparr>)"
      if "capacity_inv n st" for st v
      using that LRUCache_set_size [of "cache st" now uid v]
      by (simp add: capacity_inv_def LRUCache_set_maxSize)
    have keep: "capacity_inv n st" if "cache st = cache s1" for st
      using i1 that by (simp add: capacity_inv_def)
    have e: "getUserConnection eng now uid s =
      (case instance_ref s1 of
         None \<Rightarrow> (Resolved (notInitialized ()), s1)
       | Some inst \<Rightarrow>
           (case call_engine eng (Connect inst) s1 of
              (Rejected t, s2) \<Rightarrow> (Rejected t, s2)
            | (Resolved _, s2) \<Rightarrow>
                (case attachUserDatabase eng (length (engine_log s1)) uid s2 of
                   (Inl e, sc) \<Rightarrow> (Resolved (Inl e), sc)
                 | (Inr _, sc) \<Rightarrow>
                     (Resolved (success (length (engine_log s1))),
                      (resume_completed eng sc)
                        \<lparr>cache := LRUCache_set now uid
                           \<lparr>userId = uid, connection = length (engine_log s1),
                            lastAccess = now, attached = True, memoryUsage = None\<rparr>
                           (cache (resume_completed eng sc))\<rparr>))))"
      unfolding getUserConnection_def Let_def s1_def [symmetric]
      using True g None by simp
    show ?thesis
    proof (cases "instance_ref s1")
      case None
      with e i1 show ?thesis by simp
    next
      case (Some inst)
      define s2 where "s2 = s1\<lparr>engine_log := engine_log s1 @ [Connect inst]\<rparr>"
      have c2: "cache s2 = cache s1" by (simp add: s2_def)
      have c3: "cache (snd (attachUserDatabase eng (length (engine_log s1)) uid s2)) = cache s1"
        by (simp add: attachUserDatabase_cache c2)
      show ?thesis
      proof (cases "reply eng (engine_log s1) (Connect inst)")
        case (Rejected t)
        with e Some keep [of s2] c2 show ?thesis by (simp add: call_engine_def s2_def)
      next
        case (Resolved rows)
        obtain ar sc where a: "attachUserDatabase eng (length (engine_log s1)) uid s2 = (ar, sc)"
          by force
        with c3 have c4: "cache sc = cache s1" by simp
        note r = set_ok [OF resume_completed_inv [OF keep [OF c4], of eng]]
        from e Some Resolved a keep [OF c4] r show ?thesis
          by (cases ar) (simp_all add: call_engine_def s2_def)
      qed
    qed
  qed
qed

lemma query_inv: "capacity_inv n s \<Longrightarrow> capacity_inv n (snd (query eng now uid sql s))"
  using getUserConnection_inv [of n s eng now uid]
  by (simp add: query_def call_engine_def capacity_inv_def case_prod_unfold
      split: outcome.splits sum.splits)

lemma execute_inv: "capacity_inv n s \<Longrightarrow> capacity_inv n (snd (execute eng now uid sql s))"
  using getUserConnection_inv [of n s eng now uid]
  by (simp add: execute_def call_engine_def capacity_inv_def case_prod_unfold
      split: outcome.splits sum.splits)

lemma apply_pond_op_inv: "capacity_inv n s \<Longrightarrow> capacity_inv n (apply_pond_op eng op s)"
  by (cases op)
     (simp_all add: init_inv getUserConnection_inv query_inv execute_inv detachUser_inv
        getUserStats_inv evictionTimer_fires_inv close_inv resume_at_inv)

lemma run_pond_ops_inv: "capacity_inv n s \<Longrightarrow> capacity_inv n (run_pond_ops eng ops s)"
  unfolding run_pond_ops_def by (induction ops arbitrary: s) (simp_all add: apply_pond_op_inv)

lemma new_DuckPond_inv:
  "capacity_inv (maxActiveUsers (config (new_DuckPond cfg))) (new_DuckPond cfg)"
  by (simp add: capacity_inv_def new_DuckPond_def new_LRUCache_def LRUCache_size_def
      resolve_config_def or_nat_def split: option.splits)

lemma apply_cache_op_bound:
  "0 < maxSize c \<Longrightarrow> LRUCache_size c \<le> maxSize c \<Longrightarrow>
   maxSize (apply_cache_op op c) = maxSize c \<and> LRUCache_size (apply_cache_op op c) \<le> maxSize c"
proof (cases op)
  case (Op_get now key)
  then show "0 < maxSize c \<Longrightarrow> LRUCache_size c \<le> maxSize c \<Longrightarrow> ?thesis"
    using LRUCache_get_maxSize [of now key c] LRUCache_get_size [of now key c] by simp
next
  case (Op_set now key v)
  then show "0 < maxSize c \<Longrightarrow> LRUCache_size c \<le> maxSize c \<Longrightarrow> ?thesis"
    by (simp add: LRUCache_set_maxSize LRUCache_set_size)
next
  case (Op_delete key)
  then show "0 < maxSize c \<Longrightarrow> LRUCache_size c \<le> maxSize c \<Longrightarrow> ?thesis"
    using LRUCache_delete_maxSize [of key c] LRUCache_delete_size [of key c] by simp
qed

lemma run_cache_ops_bound:
  "0 < maxSize c \<Longrightarrow> LRUCache_size c \<le> maxSize c \<Longrightarrow>
   maxSize (run_cache_ops ops c) = maxSize c \<and> LRUCache_size (run_cache_ops ops c) \<le> maxSize c"
  unfolding run_cache_ops_def
proof (induction ops arbitrary: c)
  case Nil
  then show ?case by simp
next
  case (Cons op ops)
  from apply_cache_op_bound [OF Cons.prems, of op]
  have "maxSize (apply_cache_op op c) = maxSize c"
    and "LRUCache_size (apply_cache_op op c) \<le> maxSize c" by simp_all
  with Cons.IH [of "apply_cache_op op c"] Cons.prems show ?case by simp
qed

section \<open>The operations as equations\<close>

lemma Map_set_after_delete: "Map_set k v (Map_delete k m) = Map_delete k m @ [(k, v)]"
  by (rule Map_set_absent) (simp add: Map_delete_keys)

lemma Map_delete_append: "Map_delete k (m @ m') = Map_delete k m @ Map_delete k m'"
  by (simp add: Map_delete_def)

lemma Map_delete_idem: "Map_delete k (Map_delete k m) = Map_delete k m"
  by (simp add: Map_delete_def)

lemma Map_delete_absent: "map_of m k = None \<Longrightarrow> Map_delete k m = m"
  unfolding Map_delete_def by (induction m) (auto split: if_splits)

lemma LRUCache_get_eq:
  "LRUCache_get now key c =
     (case map_of (cache_map c) key of
        None \<Rightarrow> (None, c)
      | Some item \<Rightarrow>
          (Some (item\<lparr>lastAccess := now\<rparr>),
           c\<lparr>cache_map := Map_delete key (cache_map c) @ [(key, item\<lparr>lastAccess := now\<rparr>)]\<rparr>))"
  by (simp add: LRUCache_get_def Let_def Map_set_after_delete split: option.splits)

lemma apply_cache_op_distinct:
  "distinct (map fst (cache_map c)) \<Longrightarrow> distinct (map fst (cache_map (apply_cache_op op c)))"
  by (cases op)
     (simp_all add: LRUCache_get_def LRUCache_set_def LRUCache_delete_def LRUCache_evictLRU_def
        Let_def Map_set_distinct Map_delete_distinct split: option.splits)

lemma run_cache_ops_distinct:
  "distinct (map fst (cache_map c)) \<Longrightarrow> distinct (map fst (cache_map (run_cache_ops ops c)))"
  unfolding run_cache_ops_def
  by (induction ops arbitrary: c) (simp_all add: apply_cache_op_distinct)

lemma Map_delete_after_touch: "Map_delete k (Map_delete k m @ [(k, v)]) = Map_delete k m"
  by (simp add: Map_delete_def)



lemma detachUser_eq:
  "detachUser eng now uid s =
     (case map_of (cache_map (cache s)) uid of
        None \<Rightarrow> (Resolved (success ()), s)
      | Some v \<Rightarrow>
          if strategy (config s) = Duckdb then
            (case reply eng (engine_log s) (Run (connection v) (DetachUser uid)) of
               Rejected t \<Rightarrow>
                 (Resolved (storageError ''Failed to detach user'' (Some t)),
                  s\<lparr>cache := (cache s)\<lparr>cache_map :=
                        Map_delete uid (cache_map (cache s)) @ [(uid, v\<lparr>lastAccess := now\<rparr>)]\<rparr>,
                    engine_log := engine_log s @ [Run (connection v) (DetachUser uid)]\<rparr>)
             | Resolved _ \<Rightarrow>
                 (Resolved (success ()),
                  s\<lparr>cache := (cache s)\<lparr>cache_map := Map_delete uid (cache_map (cache s))\<rparr>,
                    engine_log := engine_log s @ [Run (connection v) (DetachUser uid)]\<rparr>))
          else (Resolved (success ()),
                s\<lparr>cache := (cache s)\<lparr>cache_map := Map_delete uid (cache_map (cache s))\<rparr>\<rparr>))"
  by (simp add: detachUser_def LRUCache_get_eq LRUCache_delete_def call_engine_def
      Map_delete_after_touch split: option.splits outcome.splits)


lemma getUserConnection_uninit:
  "\<not> initialized s \<Longrightarrow> getUserConnection eng now uid s = (Resolved (notInitialized ()), s)"
  by (simp add: getUserConnection_def)

lemma getUserConnection_hit:
  "initialized s \<Longrightarrow> map_of (cache_map (cache s)) uid = Some v \<Longrightarrow>
   getUserConnection eng now uid s =
     (Resolved (success (connection v)),
      s\<lparr>cache := (cache s)\<lparr>cache_map :=
            Map_delete uid (cache_map (cache s)) @ [(uid, v\<lparr>lastAccess := now\<rparr>)]\<rparr>\<rparr>)"
  by (simp add: getUserConnection_def LRUCache_get_eq)

lemma getUserStats_eq:
  "getUserStats now uid s =
     (case map_of (cache_map (cache s)) uid of
        None \<Rightarrow>
          (Resolved (success \<lparr>stats_userId = uid, stats_attached = False, stats_lastAccess = 0,
                              stats_memoryUsage = 0, storageUsage = 0, queryCount = 0\<rparr>), s)
      | Some v \<Rightarrow>
          (Resolved (success \<lparr>stats_userId = uid, stats_attached = True, stats_lastAccess = now,
                              stats_memoryUsage = (case memoryUsage v of None \<Rightarrow> 0 | Some m \<Rightarrow> m),
                              storageUsage = 0, queryCount = 0\<rparr>),
           s\<lparr>cache := (cache s)\<lparr>cache_map :=
                 Map_delete uid (cache_map (cache s)) @ [(uid, v\<lparr>lastAccess := now\<rparr>)]\<rparr>\<rparr>))"
  by (simp add: getUserStats_def LRUCache_get_eq split: option.splits)

lemma detachUser_initialized: "initialized (snd (detachUser eng now uid s)) = initialized s"
  by (simp add: detachUser_eq split: option.splits outcome.splits)

lemma apply_pond_op_uninit_empty:
  assumes "\<not> initialized s" and "cache_map (cache s) = []"
  shows "cache_map (cache (apply_pond_op eng op s)) = []"
proof (cases op)
  case Op_init
  then show ?thesis using assms by (simp add: init_cache)
next
  case (Op_getUserConnection now uid)
  then show ?thesis using assms by (simp add: getUserConnection_uninit)
next
  case (Op_query now uid sql)
  then show ?thesis using assms by (simp add: query_def getUserConnection_uninit notInitialized_def createError_def)
next
  case (Op_execute now uid sql)
  then show ?thesis using assms by (simp add: execute_def getUserConnection_uninit notInitialized_def createError_def)
next
  case (Op_detachUser now uid)
  then show ?thesis using assms by (simp add: detachUser_eq)
next
  case (Op_getUserStats now uid)
  then show ?thesis using assms by (simp add: getUserStats_eq)
next
  case (Op_timer now)
  then show ?thesis using assms
    by (simp add: evictionTimer_fires_def LRUCache_getStale_def split: option.splits)
next
  case (Op_close now)
  then show ?thesis using assms
    by (simp add: close_def Let_def LRUCache_keys_def split: option.splits)
next
  case (Op_resume k)
  then show ?thesis using assms
    by (simp add: resume_at_def detachUser_after_await_def LRUCache_delete_def Map_delete_def
        split: outcome.splits)
qed


lemma Map_delete_head_distinct:
  "distinct (map fst ((k, v) # m)) \<Longrightarrow> Map_delete k ((k, v) # m) = m"
  by (auto simp: Map_delete_def filter_id_conv)

lemma getStale_touched:
  "0 \<le> timeoutMs \<Longrightarrow>
   uid \<notin> set (LRUCache_getStale now timeoutMs
      (c\<lparr>cache_map := Map_delete uid m @ [(uid, v\<lparr>lastAccess := now\<rparr>)]\<rparr>))"
  by (auto simp: LRUCache_getStale_def Map_delete_def)

section \<open>Acquiring a connection follows the LRU policy\<close>

lemma never_rejects_simp [simp]: "engine_never_rejects eng \<Longrightarrow> reply eng calls c \<noteq> Rejected t"
  by (metis engine_never_rejects_def outcome.distinct(1))




lemma erased_fields:
  assumes "s'\<lparr>engine_log := []\<rparr> = s\<lparr>cache := c, engine_log := []\<rparr>"
  shows "cache s' = c" and "config s' = config s" and "initialized s' = initialized s"
    and "instance_ref s' = instance_ref s" and "evictionTimer s' = evictionTimer s"
    and "active_timers s' = active_timers s" and "timers_created s' = timers_created s"
    and "suspended s' = suspended s"
proof -
  have "suspended (s'\<lparr>engine_log := []\<rparr>) = suspended s" by (simp add: assms)
  then show "suspended s' = suspended s" by simp
  have "cache (s'\<lparr>engine_log := []\<rparr>) = c" by (simp add: assms)
  then show "cache s' = c" by simp
  have "config (s'\<lparr>engine_log := []\<rparr>) = config s" by (simp add: assms)
  then show "config s' = config s" by simp
  have "initialized (s'\<lparr>engine_log := []\<rparr>) = initialized s" by (simp add: assms)
  then show "initialized s' = initialized s" by simp
  have "instance_ref (s'\<lparr>engine_log := []\<rparr>) = instance_ref s" by (simp add: assms)
  then show "instance_ref s' = instance_ref s" by simp
  have "evictionTimer (s'\<lparr>engine_log := []\<rparr>) = evictionTimer s" by (simp add: assms)
  then show "evictionTimer s' = evictionTimer s" by simp
  have "active_timers (s'\<lparr>engine_log := []\<rparr>) = active_timers s" by (simp add: assms)
  then show "active_timers s' = active_timers s" by simp
  have "timers_created (s'\<lparr>engine_log := []\<rparr>) = timers_created s" by (simp add: assms)
  then show "timers_created s' = timers_created s" by simp
qed

lemma only_log_fields:
  assumes "s'\<lparr>engine_log := []\<rparr> = s\<lparr>engine_log := []\<rparr>"
  shows "cache s' = cache s" and "config s' = config s" and "initialized s' = initialized s"
    and "instance_ref s' = instance_ref s" and "evictionTimer s' = evictionTimer s"
    and "active_timers s' = active_timers s" and "timers_created s' = timers_created s"
    and "suspended s' = suspended s"
proof -
  from assms have "s'\<lparr>engine_log := []\<rparr> = s\<lparr>cache := cache s, engine_log := []\<rparr>" by simp
  from erased_fields [OF this]
  show "cache s' = cache s" and "config s' = config s" and "initialized s' = initialized s"
    and "instance_ref s' = instance_ref s" and "evictionTimer s' = evictionTimer s"
    and "active_timers s' = active_timers s" and "timers_created s' = timers_created s"
    and "suspended s' = suspended s"
    by simp_all
qed




lemma getUserConnection_miss:
  assumes "initialized s" and "map_of (cache_map (cache s)) uid = None"
  shows "getUserConnection eng now uid s =
     connect_attach_cache eng now uid
       (if LRUCache_size (cache s) \<ge> maxActiveUsers (config s) then evictLRU eng now s else s)"
  unfolding getUserConnection_def connect_attach_cache_def Let_def
  using assms by (simp add: LRUCache_get_eq)






section \<open>Initialization\<close>

lemma run_all_ok: "engine_never_rejects eng \<Longrightarrow> fst (run_all eng conn qs s) = None"
  by (induction qs arbitrary: s) (simp_all add: call_engine_def split: outcome.splits)

lemma setupCloudStorage_ok:
  "engine_never_rejects eng \<Longrightarrow> instance_ref s = Some inst \<Longrightarrow>
   fst (setupCloudStorage eng s) = Resolved (success ())"
  using run_all_ok [of eng "length (engine_log s)" "setup_statements (config s)"
      "s\<lparr>engine_log := engine_log s @ [Connect inst]\<rparr>"]
  by (simp add: setupCloudStorage_def call_engine_def case_prod_unfold
      split: outcome.splits option.splits)

text \<open>What \<open>init\<close> does, by the outcome of its engine calls.\<close>

lemma init_eq:
  assumes "\<not> initialized s"
  shows "init eng s =
    (case reply eng (engine_log s) (CreateInstance '':memory:'') of
       Rejected t \<Rightarrow>
         (Resolved (Inl (toDuckPondError t CONNECTION_FAILED)),
          s\<lparr>engine_log := engine_log s @ [CreateInstance '':memory:'']\<rparr>)
     | Resolved _ \<Rightarrow>
         (let st = s\<lparr>engine_log := engine_log s @ [CreateInstance '':memory:''],
                     instance_ref := Some (length (engine_log s))\<rparr>;
              st' = snd (setupCloudStorage eng st)
          in case fst (setupCloudStorage eng st) of
               Rejected t \<Rightarrow> (Resolved (Inl (toDuckPondError t CONNECTION_FAILED)), st')
             | Resolved (Inl err) \<Rightarrow>
                 (Resolved (Inl (toDuckPondError
                    (JsError (if message err = [] then ''Cloud storage setup failed''
                              else message err)) CONNECTION_FAILED)), st')
             | Resolved (Inr _) \<Rightarrow>
                 (Resolved (success ()), (startEvictionTimer st')\<lparr>initialized := True\<rparr>)))"
  using assms
  by (simp add: init_def call_engine_def case_prod_unfold Let_def
      split: outcome.splits sum.splits)

lemma init_ok:
  assumes "\<not> initialized s" and "engine_never_rejects eng"
  shows "fst (init eng s) = Resolved (success ())"
    and "initialized (snd (init eng s))"
    and "instance_ref (snd (init eng s)) = Some (length (engine_log s))"
    and "cache (snd (init eng s)) = cache s"
    and "config (snd (init eng s)) = config s"
    and "evictionTimer (snd (init eng s)) = Some (timers_created s)"
    and "active_timers (snd (init eng s)) = timers_created s # active_timers s"
    and "suspended (snd (init eng s)) = suspended s"
proof -
  let ?st = "s\<lparr>engine_log := engine_log s @ [CreateInstance '':memory:''],
               instance_ref := Some (length (engine_log s))\<rparr>"
  have ok: "fst (setupCloudStorage eng ?st) = Resolved (Inr ())"
    using setupCloudStorage_ok [OF assms(2), of ?st "length (engine_log s)"]
    by (simp add: success_def)
  note f = only_log_fields [OF setupCloudStorage_only_log [of eng ?st]]
  have e: "init eng s =
      (Resolved (success ()), (startEvictionTimer (snd (setupCloudStorage eng ?st)))\<lparr>initialized := True\<rparr>)"
    using assms(2) ok by (simp add: init_eq [OF assms(1)] Let_def split: outcome.splits)
  show "fst (init eng s) = Resolved (success ())" by (simp add: e)
  show "initialized (snd (init eng s))" by (simp add: e)
  show "instance_ref (snd (init eng s)) = Some (length (engine_log s))"
    by (simp add: e startEvictionTimer_def f)
  show "cache (snd (init eng s)) = cache s" by (simp add: e startEvictionTimer_def f)
  show "config (snd (init eng s)) = config s" by (simp add: e startEvictionTimer_def f)
  show "evictionTimer (snd (init eng s)) = Some (timers_created s)"
    by (simp add: e startEvictionTimer_def f)
  show "active_timers (snd (init eng s)) = timers_created s # active_timers s"
    by (simp add: e startEvictionTimer_def f)
  show "suspended (snd (init eng s)) = suspended s"
    by (simp add: e startEvictionTimer_def f)
qed


lemma init_resolves: "\<exists>r. fst (init eng s) = Resolved r"
  by (simp add: init_def call_engine_def case_prod_unfold split: outcome.splits sum.splits)

lemma detachUser_resolves: "\<exists>r. fst (detachUser eng now uid s) = Resolved r"
  by (simp add: detachUser_eq split: option.splits outcome.splits)

lemma getUserStats_resolves: "\<exists>r. fst (getUserStats now uid s) = Resolved r"
  by (simp add: getUserStats_eq split: option.splits)

lemma close_resolves: "fst (close eng now s) = Resolved (success ())"
  by (simp add: close_def Let_def)

section \<open>Facts about \<open>close\<close>\<close>

lemma detachUser_drain_step:
  assumes "strategy (config s) \<noteq> Duckdb \<or> engine_never_rejects eng"
  shows "cache_map (cache (snd (detachUser eng now uid s))) = Map_delete uid (cache_map (cache s))"
proof (cases "map_of (cache_map (cache s)) uid")
  case None
  then show ?thesis by (simp add: detachUser_eq Map_delete_absent)
next
  case (Some v)
  with assms show ?thesis
    by (auto simp: detachUser_eq split: outcome.splits)
qed

lemma fold_detachUser_frame:
  "config (fold (\<lambda>uid st. snd (detachUser eng now uid st)) uids s) = config s
   \<and> initialized (fold (\<lambda>uid st. snd (detachUser eng now uid st)) uids s) = initialized s
   \<and> instance_ref (fold (\<lambda>uid st. snd (detachUser eng now uid st)) uids s) = instance_ref s
   \<and> evictionTimer (fold (\<lambda>uid st. snd (detachUser eng now uid st)) uids s) = evictionTimer s
   \<and> active_timers (fold (\<lambda>uid st. snd (detachUser eng now uid st)) uids s) = active_timers s
   \<and> timers_created (fold (\<lambda>uid st. snd (detachUser eng now uid st)) uids s) = timers_created s"
proof (induction uids arbitrary: s)
  case Nil
  show ?case by simp
next
  case (Cons uid uids)
  from Cons [of "snd (detachUser eng now uid s)"] detachUser_frame [of eng now uid s]
  show ?case by simp
qed

lemma fold_detachUser_drains:
  assumes "strategy (config s) \<noteq> Duckdb \<or> engine_never_rejects eng"
  shows "cache_map (cache (fold (\<lambda>uid st. snd (detachUser eng now uid st)) uids s))
           = filter (\<lambda>p. fst p \<notin> set uids) (cache_map (cache s))"
  using assms
proof (induction uids arbitrary: s)
  case Nil
  show ?case by simp
next
  case (Cons uid uids)
  let ?s1 = "snd (detachUser eng now uid s)"
  have c: "config ?s1 = config s" using detachUser_frame [of eng now uid s] by simp
  with Cons.prems have "strategy (config ?s1) \<noteq> Duckdb \<or> engine_never_rejects eng" by simp
  from Cons.IH [OF this]
  have "cache_map (cache (fold (\<lambda>uid st. snd (detachUser eng now uid st)) uids ?s1))
      = filter (\<lambda>p. fst p \<notin> set uids) (Map_delete uid (cache_map (cache s)))"
    by (simp add: detachUser_drain_step [OF Cons.prems])
  then show ?case by (auto simp: Map_delete_def intro: filter_cong)
qed

lemma close_eq:
  "close eng now s =
     (Resolved (success ()),
      (fold (\<lambda>uid st. snd (detachUser eng now uid st)) (LRUCache_keys (cache s))
         (case evictionTimer s of
            None \<Rightarrow> s
          | Some t \<Rightarrow> s\<lparr>active_timers := removeAll t (active_timers s)\<rparr>))
      \<lparr>instance_ref := None, initialized := False\<rparr>)"
  by (simp add: close_def Let_def split: option.splits)

lemma close_fields:
  "\<not> initialized (snd (close eng now s))"
  "instance_ref (snd (close eng now s)) = None"
  "config (snd (close eng now s)) = config s"
  "evictionTimer (snd (close eng now s)) = evictionTimer s"
  "active_timers (snd (close eng now s))
     = (case evictionTimer s of None \<Rightarrow> active_timers s
        | Some t \<Rightarrow> removeAll t (active_timers s))"
  using fold_detachUser_frame [where eng = eng and now = now and uids = "LRUCache_keys (cache s)"
      and s = "case evictionTimer s of None \<Rightarrow> s
               | Some t \<Rightarrow> s\<lparr>active_timers := removeAll t (active_timers s)\<rparr>"]
  by (simp_all add: close_eq split: option.splits)

lemma close_drains_cache:
  assumes "strategy (config s) \<noteq> Duckdb \<or> engine_never_rejects eng"
  shows "cache_map (cache (snd (close eng now s))) = []"
proof -
  let ?s1 = "case evictionTimer s of None \<Rightarrow> s
             | Some t \<Rightarrow> s\<lparr>active_timers := removeAll t (active_timers s)\<rparr>"
  have c: "config ?s1 = config s" and k: "cache ?s1 = cache s"
    by (simp_all split: option.splits)
  from assms c have "strategy (config ?s1) \<noteq> Duckdb \<or> engine_never_rejects eng" by simp
  from fold_detachUser_drains [OF this, of now "LRUCache_keys (cache s)"]
  show ?thesis by (simp add: close_eq k LRUCache_keys_def)
qed

lemma close_again:
  assumes "cache_map (cache (snd (close eng now s))) = []"
  shows "close eng2 now2 (snd (close eng now s)) = (Resolved (success ()), snd (close eng now s))"
proof -
  let ?s' = "snd (close eng now s)"
  have t: "(case evictionTimer ?s' of None \<Rightarrow> ?s'
           | Some t \<Rightarrow> ?s'\<lparr>active_timers := removeAll t (active_timers ?s')\<rparr>) = ?s'"
    by (cases "evictionTimer s") (simp_all add: close_fields)
  have "?s'\<lparr>instance_ref := None, initialized := False\<rparr> = ?s'"
    by (simp add: close_eq)
  with assms t show ?thesis
    by (simp add: close_eq [of eng2 now2 ?s'] LRUCache_keys_def)
qed

section \<open>Which promises resolve, and managers never initialized\<close>

lemma connect_attach_cache_resolves:
  assumes "\<forall>calls i t. reply eng calls (Connect i) \<noteq> Rejected t"
  shows "\<exists>r. fst (connect_attach_cache eng now uid s) = Resolved r"
  using assms
  by (simp add: connect_attach_cache_def call_engine_def attachUserDatabase_def case_prod_unfold
      storageError_def createError_def success_def
      split: option.splits outcome.splits sum.splits)

lemma getUserConnection_resolves:
  assumes "\<forall>calls i t. reply eng calls (Connect i) \<noteq> Rejected t"
  shows "\<exists>r. fst (getUserConnection eng now uid s) = Resolved r"
proof (cases "initialized s")
  case False
  then show ?thesis by (simp add: getUserConnection_uninit)
next
  case True
  show ?thesis
  proof (cases "map_of (cache_map (cache s)) uid")
    case None
    show ?thesis
      unfolding getUserConnection_miss [OF True None]
      using assms by (rule connect_attach_cache_resolves)
  next
    case (Some v)
    then show ?thesis by (simp add: getUserConnection_hit [OF True Some])
  qed
qed

lemma query_resolves:
  assumes "\<forall>calls i t. reply eng calls (Connect i) \<noteq> Rejected t"
  shows "\<exists>r. fst (query eng now uid sql s) = Resolved r"
  using getUserConnection_resolves [OF assms, of now uid s]
  by (auto simp: query_def call_engine_def case_prod_unfold split: outcome.splits sum.splits)

lemma execute_resolves:
  assumes "\<forall>calls i t. reply eng calls (Connect i) \<noteq> Rejected t"
  shows "\<exists>r. fst (execute eng now uid sql s) = Resolved r"
  using getUserConnection_resolves [OF assms, of now uid s]
  by (auto simp: execute_def call_engine_def case_prod_unfold split: outcome.splits sum.splits)

lemma detachUser_until_await_initialized:
  "initialized (detachUser_until_await eng now uid s) = initialized s"
  by (simp add: detachUser_until_await_def call_engine_def case_prod_unfold split: option.splits)

lemma fold_detachUser_until_await_initialized:
  "initialized (fold (detachUser_until_await eng now) uids s) = initialized s"
  by (induction uids arbitrary: s) (simp_all add: detachUser_until_await_initialized)

lemma resume_at_initialized: "initialized (resume_at k s) = initialized s"
  by (simp add: resume_at_def detachUser_after_await_def split: outcome.splits)

lemma apply_pond_op_stays_uninitialized:
  assumes "\<not> initialized s" and "op \<noteq> Op_init"
  shows "\<not> initialized (apply_pond_op eng op s)"
proof (cases op)
  case Op_init
  with assms show ?thesis by simp
next
  case (Op_getUserConnection now uid)
  then show ?thesis using assms by (simp add: getUserConnection_uninit)
next
  case (Op_query now uid sql)
  then show ?thesis using assms
    by (simp add: query_def getUserConnection_uninit notInitialized_def createError_def)
next
  case (Op_execute now uid sql)
  then show ?thesis using assms
    by (simp add: execute_def getUserConnection_uninit notInitialized_def createError_def)
next
  case (Op_detachUser now uid)
  then show ?thesis using assms by (simp add: detachUser_initialized)
next
  case (Op_getUserStats now uid)
  then show ?thesis using assms by (simp add: getUserStats_eq split: option.splits)
next
  case (Op_timer now)
  then show ?thesis using assms
    by (simp add: evictionTimer_fires_def fold_detachUser_until_await_initialized
        split: option.splits)
next
  case (Op_close now)
  then show ?thesis by (simp add: close_fields)
next
  case (Op_resume k)
  then show ?thesis using assms by (simp add: resume_at_initialized)
qed

lemma never_initialized:
  assumes "Op_init \<notin> set ops" and "\<not> initialized s" and "cache_map (cache s) = []"
  shows "\<not> initialized (run_pond_ops eng ops s) \<and> cache_map (cache (run_pond_ops eng ops s)) = []"
  using assms unfolding run_pond_ops_def
proof (induction ops arbitrary: s)
  case Nil
  then show ?case by simp
next
  case (Cons op ops)
  from Cons.prems have "op \<noteq> Op_init" by auto
  from apply_pond_op_stays_uninitialized [OF Cons.prems(2) this]
    apply_pond_op_uninit_empty [OF Cons.prems(2,3)] Cons.prems(1)
    Cons.IH [of "apply_pond_op eng op s"]
  show ?case by simp
qed

section \<open>The repository's tests on the model\<close>

text \<open>
  The scenarios of the repository's tests of \<open>DuckPond\<close>, run on the model with
  an engine that succeeds: they come out as the tests expect (the utilization percentage,
  which the model leaves out, apart).
\<close>

lemma test_query_before_initialization:
  "fst (query engine_ok 0 ''test-user'' ''SELECT 1'' (new_DuckPond empty_config))
     = Resolved (Inl \<lparr>code = NOT_INITIALIZED,
                      message = ''DuckPond not initialized. Call init() first.'',
                      cause = None, err_context = None\<rparr>)"
  by code_simp

lemma test_multiple_init_calls:
  "fst (init engine_ok (new_DuckPond empty_config)) = Resolved (Inr ())
   \<and> init engine_ok (snd (init engine_ok (new_DuckPond empty_config)))
       = (Resolved (Inr ()), snd (init engine_ok (new_DuckPond empty_config)))"
  by code_simp

lemma test_list_cached_users:
  "listUsers (run_pond_ops engine_ok
      [Op_init, Op_query 1 ''user1'' ''SELECT 1'', Op_query 2 ''user2'' ''SELECT 1'']
      (new_DuckPond (config_with 3 Parquet)))
     = \<lparr>users = [''user1'', ''user2''], count = 2, list_maxActiveUsers = 3\<rparr>"
  by code_simp

lemma test_cache_utilization:
  "listUsers (run_pond_ops engine_ok
      [Op_init, Op_query 1 ''user1'' ''SELECT 1'', Op_query 2 ''user2'' ''SELECT 1'',
       Op_detachUser 3 ''user1'', Op_detachUser 4 ''user2'',
       Op_query 5 ''user1'' ''SELECT 1'', Op_query 6 ''user2'' ''SELECT 1'',
       Op_query 7 ''user3'' ''SELECT 1'']
      (new_DuckPond (config_with 3 Parquet)))
     = \<lparr>users = [''user1'', ''user2'', ''user3''], count = 3, list_maxActiveUsers = 3\<rparr>"
  by code_simp

lemma test_detach_users:
  "isAttached (run_pond_ops engine_ok [Op_init, Op_query 1 ''user1'' ''SELECT 1'']
      (new_DuckPond empty_config)) ''user1''
   \<and> fst (detachUser engine_ok 2 ''user1''
        (run_pond_ops engine_ok [Op_init, Op_query 1 ''user1'' ''SELECT 1'']
           (new_DuckPond empty_config))) = Resolved (Inr ())
   \<and> \<not> isAttached (run_pond_ops engine_ok
        [Op_init, Op_query 1 ''user1'' ''SELECT 1'', Op_detachUser 2 ''user1'']
        (new_DuckPond empty_config)) ''user1''"
  by code_simp

lemma test_LRU_eviction:
  "\<not> isAttached (run_pond_ops engine_ok
        [Op_init, Op_query 1 ''user1'' ''SELECT 1'', Op_query 2 ''user2'' ''SELECT 1'',
         Op_query 3 ''user3'' ''SELECT 1'']
        (new_DuckPond (config_with 2 Parquet))) ''user1''
   \<and> isAttached (run_pond_ops engine_ok
        [Op_init, Op_query 1 ''user1'' ''SELECT 1'', Op_query 2 ''user2'' ''SELECT 1'',
         Op_query 3 ''user3'' ''SELECT 1'']
        (new_DuckPond (config_with 2 Parquet))) ''user2''
   \<and> isAttached (run_pond_ops engine_ok
        [Op_init, Op_query 1 ''user1'' ''SELECT 1'', Op_query 2 ''user2'' ''SELECT 1'',
         Op_query 3 ''user3'' ''SELECT 1'']
        (new_DuckPond (config_with 2 Parquet))) ''user3''"
  by code_simp

section \<open>C1: the capacity invariant\<close>

text \<open>
  Claim C1. A cache built with a positive capacity \<open>n\<close> holds at most \<open>n\<close> entries after
  every sequence of \<open>get\<close>, \<open>set\<close> and \<open>delete\<close> operations; and the cache of a manager
  built from any configuration holds at most \<open>maxActiveUsers\<close> entries after every sequence
  of operations on the manager (\<open>getUserConnection\<close> among them), whatever the engine does.
  Every prefix of a sequence is a sequence, so the bound holds after every operation.
\<close>

theorem capacity_invariant:
  "(0 < n \<longrightarrow> LRUCache_size (run_cache_ops ops (new_LRUCache n)) \<le> n)
   \<and> LRUCache_size (cache (run_pond_ops eng pops (new_DuckPond cfg)))
       \<le> maxActiveUsers (config (new_DuckPond cfg))"
proof
  show "0 < n \<longrightarrow> LRUCache_size (run_cache_ops ops (new_LRUCache n)) \<le> n"
    using run_cache_ops_bound [of "new_LRUCache n" ops]
    by (simp add: new_LRUCache_def LRUCache_size_def)
  show "LRUCache_size (cache (run_pond_ops eng pops (new_DuckPond cfg)))
       \<le> maxActiveUsers (config (new_DuckPond cfg))"
    using run_pond_ops_inv [OF new_DuckPond_inv, where eng = eng and ops = pops and cfg1 = cfg]
    by (simp add: capacity_inv_def)
qed

theorem capacity_invariant_witness:
  "0 < (2::nat)
   \<and> LRUCache_size (run_cache_ops
         [Op_set 1 ''a'' (example_db ''a''), Op_set 2 ''b'' (example_db ''b''),
          Op_get 3 ''a'', Op_set 4 ''c'' (example_db ''c''), Op_delete ''b'']
         (new_LRUCache 2)) \<le> 2
   \<and> LRUCache_size (cache (run_pond_ops engine_ok
         [Op_init, Op_getUserConnection 1 ''a'', Op_getUserConnection 2 ''b'',
          Op_getUserConnection 3 ''c'']
         (new_DuckPond (config_with 2 Parquet))))
       \<le> maxActiveUsers (config (new_DuckPond (config_with 2 Parquet)))"
proof -
  have "0 < (2::nat)" by simp
  with capacity_invariant [of 2
      "[Op_set 1 ''a'' (example_db ''a''), Op_set 2 ''b'' (example_db ''b''),
        Op_get 3 ''a'', Op_set 4 ''c'' (example_db ''c''), Op_delete ''b'']"
      engine_ok
      "[Op_init, Op_getUserConnection 1 ''a'', Op_getUserConnection 2 ''b'',
        Op_getUserConnection 3 ''c'']"
      "config_with 2 Parquet"]
  show ?thesis by blast
qed

section \<open>C2: a cache hit refreshes recency\<close>




section \<open>C3: a manual release\<close>




section \<open>C4: operations before initialization\<close>

text \<open>
  Claim C4 says that \<open>detachUser\<close> and \<open>getUserStats\<close> return the error
  \<open>NOT_INITIALIZED\<close> before \<open>init\<close>. On a new manager both return success.
\<close>

theorem detach_and_stats_before_init:
  "\<not> initialized (new_DuckPond empty_config)
   \<and> fst (detachUser engine_ok 0 ''u'' (new_DuckPond empty_config)) = Resolved (Inr ())
   \<and> fst (detachUser engine_ok 0 ''u'' (new_DuckPond empty_config)) \<noteq> Resolved (notInitialized ())
   \<and> fst (getUserStats 0 ''u'' (new_DuckPond empty_config))
       = Resolved (Inr \<lparr>stats_userId = ''u'', stats_attached = False, stats_lastAccess = 0,
                        stats_memoryUsage = 0, storageUsage = 0, queryCount = 0\<rparr>)"
  by code_simp

text \<open>
  Claim C4, amended. On a manager that is not initialized, \<open>getUserConnection\<close>, \<open>query\<close>
  and \<open>execute\<close> return the error \<open>NOT_INITIALIZED\<close> and leave the whole state as it was
  (the cache and the log of engine calls included). \<open>detachUser\<close> and \<open>getUserStats\<close> do
  not check \<open>initialized\<close>: while the cache is empty, as it is on every manager on which
  \<open>init\<close> was not yet called (\<open>never_initialized\<close>) or has only failed
  (\<open>apply_pond_op_uninit_empty\<close>), they return success and leave the state as it was.
\<close>

theorem uninitialized_operations:
  assumes "\<not> initialized s"
  shows "getUserConnection eng now uid s = (Resolved (notInitialized ()), s)
       \<and> query eng now uid sql s = (Resolved (notInitialized ()), s)
       \<and> execute eng now uid sql s = (Resolved (notInitialized ()), s)
       \<and> (cache_map (cache s) = [] \<longrightarrow>
            detachUser eng now uid s = (Resolved (success ()), s)
            \<and> getUserStats now uid s =
                (Resolved (success \<lparr>stats_userId = uid, stats_attached = False,
                                    stats_lastAccess = 0, stats_memoryUsage = 0,
                                    storageUsage = 0, queryCount = 0\<rparr>), s))"
  using assms
  by (simp add: getUserConnection_uninit query_def execute_def notInitialized_def createError_def
      detachUser_eq getUserStats_eq)

theorem uninitialized_operations_witness:
  "\<not> initialized (new_DuckPond empty_config)
   \<and> cache_map (cache (new_DuckPond empty_config)) = []
   \<and> query engine_ok 5 ''u'' ''SELECT 1'' (new_DuckPond empty_config)
       = (Resolved (notInitialized ()), new_DuckPond empty_config)
   \<and> execute engine_ok 5 ''u'' ''SELECT 1'' (new_DuckPond empty_config)
       = (Resolved (notInitialized ()), new_DuckPond empty_config)
   \<and> detachUser engine_ok 5 ''u'' (new_DuckPond empty_config)
       = (Resolved (success ()), new_DuckPond empty_config)"
proof -
  have h: "\<not> initialized (new_DuckPond empty_config)" by code_simp
  have e: "cache_map (cache (new_DuckPond empty_config)) = []" by code_simp
  from uninitialized_operations [OF h, of engine_ok 5 "''u''" "''SELECT 1''"] h e
  show ?thesis by simp
qed

section \<open>C5: a failed initialization\<close>

text \<open>
  Claim C5 says that no engine-instance reference survives a failed \<open>init\<close>. With an
  engine that throws on the performance settings of \<open>setupCloudStorage\<close>, \<open>init\<close> on a new
  manager returns the error \<open>CONNECTION_FAILED\<close>, and the manager, which held no instance
  before, holds the instance created by the failed call.
\<close>

theorem init_failure_keeps_instance:
  "instance_ref (new_DuckPond empty_config) = None
   \<and> fst (init engine_setup_fails (new_DuckPond empty_config))
       = Resolved (Inl \<lparr>code = CONNECTION_FAILED, message = ''Failed to setup cloud storage'',
                        cause = Some (JsError ''Failed to setup cloud storage''),
                        err_context = None\<rparr>)
   \<and> \<not> initialized (snd (init engine_setup_fails (new_DuckPond empty_config)))
   \<and> instance_ref (snd (init engine_setup_fails (new_DuckPond empty_config))) = Some 0"
  by code_simp

text \<open>
  Claim C5, amended. When \<open>init\<close> on a manager that is not initialized returns an error,
  the code of the error is \<open>CONNECTION_FAILED\<close>, \<open>initialized\<close> is still false, and the
  cache, the timer field, the active timers and the number of timers created are as before;
  when it was the creation of the instance that threw, the instance reference is as before
  too. A following \<open>init\<close> on which the engine does not throw succeeds, sets
  \<open>initialized\<close> and leaves the cache as it was.
\<close>

theorem init_failure:
  assumes "\<not> initialized s" and "fst (init eng s) = Resolved (Inl e)"
  shows "code e = CONNECTION_FAILED
       \<and> \<not> initialized (snd (init eng s))
       \<and> cache (snd (init eng s)) = cache s
       \<and> evictionTimer (snd (init eng s)) = evictionTimer s
       \<and> active_timers (snd (init eng s)) = active_timers s
       \<and> timers_created (snd (init eng s)) = timers_created s
       \<and> (reply eng (engine_log s) (CreateInstance '':memory:'') = Rejected t \<longrightarrow>
            instance_ref (snd (init eng s)) = instance_ref s)
       \<and> (engine_never_rejects eng' \<longrightarrow>
            fst (init eng' (snd (init eng s))) = Resolved (success ())
            \<and> initialized (snd (init eng' (snd (init eng s))))
            \<and> cache (snd (init eng' (snd (init eng s)))) = cache s)"
proof -
  let ?st = "s\<lparr>engine_log := engine_log s @ [CreateInstance '':memory:''],
               instance_ref := Some (length (engine_log s))\<rparr>"
  note f = only_log_fields [OF setupCloudStorage_only_log [of eng ?st]]
  have c: "code (toDuckPondError x CONNECTION_FAILED) = CONNECTION_FAILED" for x
    by (cases x) simp_all
  have main: "code e = CONNECTION_FAILED \<and> \<not> initialized (snd (init eng s))
       \<and> cache (snd (init eng s)) = cache s
       \<and> evictionTimer (snd (init eng s)) = evictionTimer s
       \<and> active_timers (snd (init eng s)) = active_timers s
       \<and> timers_created (snd (init eng s)) = timers_created s
       \<and> (reply eng (engine_log s) (CreateInstance '':memory:'') = Rejected t \<longrightarrow>
            instance_ref (snd (init eng s)) = instance_ref s)"
  proof (cases "reply eng (engine_log s) (CreateInstance '':memory:'')")
    case (Rejected x)
    with assms c show ?thesis by (auto simp: init_eq [OF assms(1)])
  next
    case (Resolved rows)
    show ?thesis
    proof (cases "fst (setupCloudStorage eng ?st)")
      case (Rejected x)
      with Resolved assms c f show ?thesis
        by (auto simp: init_eq [OF assms(1)] Let_def)
    next
      case r: (Resolved res)
      show ?thesis
      proof (cases res)
        case (Inl err)
        with r Resolved assms c f show ?thesis
          by (auto simp: init_eq [OF assms(1)] Let_def)
      next
        case (Inr u)
        with r Resolved assms show ?thesis
          by (simp add: init_eq [OF assms(1)] Let_def success_def)
      qed
    qed
  qed
  then have u: "\<not> initialized (snd (init eng s))" and k: "cache (snd (init eng s)) = cache s"
    by simp_all
  have "engine_never_rejects eng' \<longrightarrow>
            fst (init eng' (snd (init eng s))) = Resolved (success ())
            \<and> initialized (snd (init eng' (snd (init eng s))))
            \<and> cache (snd (init eng' (snd (init eng s)))) = cache s"
    using init_ok(1,2,4) [OF u, of eng'] k by simp
  with main show ?thesis by blast
qed

theorem init_failure_witness:
  "\<not> initialized (new_DuckPond empty_config)
   \<and> fst (init engine_setup_fails (new_DuckPond empty_config))
       = Resolved (Inl \<lparr>code = CONNECTION_FAILED, message = ''Failed to setup cloud storage'',
                        cause = Some (JsError ''Failed to setup cloud storage''),
                        err_context = None\<rparr>)
   \<and> engine_never_rejects engine_ok
   \<and> \<not> initialized (snd (init engine_setup_fails (new_DuckPond empty_config)))
   \<and> active_timers (snd (init engine_setup_fails (new_DuckPond empty_config))) = []
   \<and> initialized (snd (init engine_ok (snd (init engine_setup_fails (new_DuckPond empty_config)))))
   \<and> fst (init engine_create_fails (new_DuckPond empty_config))
       = Resolved (Inl \<lparr>code = CONNECTION_FAILED, message = ''cannot create instance'',
                        cause = Some (JsError ''cannot create instance''), err_context = None\<rparr>)
   \<and> reply engine_create_fails (engine_log (new_DuckPond empty_config)) (CreateInstance '':memory:'')
       = Rejected (JsError ''cannot create instance'')
   \<and> instance_ref (snd (init engine_create_fails (new_DuckPond empty_config))) = None"
proof -
  let ?s = "new_DuckPond empty_config"
  let ?e1 = "\<lparr>code = CONNECTION_FAILED, message = ''Failed to setup cloud storage'',
              cause = Some (JsError ''Failed to setup cloud storage''), err_context = None\<rparr>"
  let ?e2 = "\<lparr>code = CONNECTION_FAILED, message = ''cannot create instance'',
              cause = Some (JsError ''cannot create instance''), err_context = None\<rparr>"
  have u: "\<not> initialized ?s" by code_simp
  have r1: "fst (init engine_setup_fails ?s) = Resolved (Inl ?e1)" by code_simp
  have r2: "fst (init engine_create_fails ?s) = Resolved (Inl ?e2)" by code_simp
  have ok: "engine_never_rejects engine_ok"
    by (simp add: engine_never_rejects_def engine_ok_def)
  have rej: "reply engine_create_fails (engine_log ?s) (CreateInstance '':memory:'')
       = Rejected (JsError ''cannot create instance'')"
    by (simp add: engine_create_fails_def)
  have t0: "active_timers ?s = []" and i0: "instance_ref ?s = None"
    by (simp_all add: new_DuckPond_def)
  from init_failure [OF u r1, of "JsError ''x''" engine_ok] ok t0
  have a: "\<not> initialized (snd (init engine_setup_fails ?s))"
    and b: "active_timers (snd (init engine_setup_fails ?s)) = []"
    and c: "initialized (snd (init engine_ok (snd (init engine_setup_fails ?s))))"
    by simp_all
  from init_failure [OF u r2, of "JsError ''cannot create instance''" engine_ok] rej i0
  have d: "instance_ref (snd (init engine_create_fails ?s)) = None"
    by simp
  from u r1 ok a b c r2 rej d show ?thesis by blast
qed

section \<open>C6: what crosses the public boundary\<close>

text \<open>
  Claim C6. \<open>init\<close>, \<open>detachUser\<close>, \<open>getUserStats\<close> and \<open>close\<close> always resolve
  (\<open>init_resolves\<close>, \<open>detachUser_resolves\<close>, \<open>getUserStats_resolves\<close>,
  \<open>close_resolves\<close>), and so do \<open>query\<close> and \<open>execute\<close> while \<open>connect\<close> does not
  throw (\<open>query_resolves\<close>, \<open>execute_resolves\<close>). Otherwise they do not: on an engine whose
  \<open>instance.connect()\<close> throws once a first connection was made, \<open>init\<close> succeeds and the
  promise of a following \<open>query\<close> or \<open>execute\<close> is rejected with the thrown value, since
  \<open>getUserConnection\<close> awaits \<open>connect\<close> outside any \<open>try\<close>.
\<close>

theorem query_rejects_when_connect_throws:
  "fst (init engine_connect_fails (new_DuckPond empty_config)) = Resolved (Inr ())
   \<and> fst (query engine_connect_fails 1 ''u'' ''SELECT 1''
            (snd (init engine_connect_fails (new_DuckPond empty_config))))
       = Rejected (JsError ''connect failed'')
   \<and> fst (execute engine_connect_fails 1 ''u'' ''SELECT 1''
            (snd (init engine_connect_fails (new_DuckPond empty_config))))
       = Rejected (JsError ''connect failed'')"
  by code_simp

section \<open>C7: a query that fails in the engine\<close>



section \<open>C8: shutdown\<close>

text \<open>
  Claim C8 says that after \<open>close\<close> no tenant is cached and every following tenant
  operation fails with \<open>NOT_INITIALIZED\<close>. Under the duckdb strategy, with an engine whose
  \<open>DETACH\<close> throws, the three tenants attached before \<open>close\<close> are all still in the cache
  after it. And after a \<open>close\<close> that did empty the cache, \<open>detachUser\<close> and
  \<open>getUserStats\<close> return success.
\<close>

theorem close_leaves_entries:
  "count (listUsers (three_attached engine_detach_fails Duckdb)) = 3
   \<and> count (listUsers (snd (close engine_detach_fails 9 (three_attached engine_detach_fails Duckdb)))) = 3
   \<and> count (listUsers (snd (close engine_ok 9 (three_attached engine_ok Parquet)))) = 0
   \<and> fst (detachUser engine_ok 10 ''a'' (snd (close engine_ok 9 (three_attached engine_ok Parquet))))
       = Resolved (Inr ())
   \<and> fst (getUserStats 10 ''a'' (snd (close engine_ok 9 (three_attached engine_ok Parquet))))
       = Resolved (Inr \<lparr>stats_userId = ''a'', stats_attached = False, stats_lastAccess = 0,
                        stats_memoryUsage = 0, storageUsage = 0, queryCount = 0\<rparr>)"
  by code_simp

text \<open>
  Claim C8, amended. From any state, \<open>close\<close> returns success, leaves \<open>initialized\<close>
  false and no instance reference, and clears the manager's timer, so that its callback does
  nothing any more; a following \<open>query\<close> or \<open>execute\<close> returns the error
  \<open>NOT_INITIALIZED\<close> and changes nothing. When no detach step throws (the strategy is not
  duckdb, or the engine never throws), the cache is empty afterwards, \<open>listUsers\<close> counts 0,
  and a second \<open>close\<close> returns success and leaves the state as it is.
\<close>

theorem close_drains:
  "fst (close eng now s) = Resolved (success ())
   \<and> \<not> initialized (snd (close eng now s))
   \<and> instance_ref (snd (close eng now s)) = None
   \<and> evictionTimer_fires eng2 now2 (snd (close eng now s)) = snd (close eng now s)
   \<and> query eng2 now2 uid sql (snd (close eng now s))
       = (Resolved (notInitialized ()), snd (close eng now s))
   \<and> execute eng2 now2 uid sql (snd (close eng now s))
       = (Resolved (notInitialized ()), snd (close eng now s))
   \<and> (strategy (config s) \<noteq> Duckdb \<or> engine_never_rejects eng \<longrightarrow>
        count (listUsers (snd (close eng now s))) = 0
        \<and> users (listUsers (snd (close eng now s))) = []
        \<and> close eng2 now2 (snd (close eng now s)) = (Resolved (success ()), snd (close eng now s)))"
proof -
  let ?s' = "snd (close eng now s)"
  have u: "\<not> initialized ?s'" by (rule close_fields)
  have a: "fst (close eng now s) = Resolved (success ())" by (simp add: close_eq)
  have t: "evictionTimer_fires eng2 now2 ?s' = ?s'"
    by (cases "evictionTimer s") (simp_all add: evictionTimer_fires_def close_fields)
  have q: "query eng2 now2 uid sql ?s' = (Resolved (notInitialized ()), ?s')"
    and x: "execute eng2 now2 uid sql ?s' = (Resolved (notInitialized ()), ?s')"
    using u by (simp_all add: query_def execute_def getUserConnection_uninit
        notInitialized_def createError_def)
  have d: "strategy (config s) \<noteq> Duckdb \<or> engine_never_rejects eng \<longrightarrow>
        count (listUsers ?s') = 0 \<and> users (listUsers ?s') = []
        \<and> close eng2 now2 ?s' = (Resolved (success ()), ?s')"
  proof
    assume "strategy (config s) \<noteq> Duckdb \<or> engine_never_rejects eng"
    then have e: "cache_map (cache ?s') = []" by (rule close_drains_cache)
    from close_again [OF e, of eng2 now2] e
    show "count (listUsers ?s') = 0 \<and> users (listUsers ?s') = []
        \<and> close eng2 now2 ?s' = (Resolved (success ()), ?s')"
      by (simp add: listUsers_def LRUCache_getStats_def LRUCache_keys_def)
  qed
  from a u close_fields(2) [of eng now s] t q x d show ?thesis by blast
qed

theorem close_drains_witness:
  "strategy (config (three_attached engine_ok Parquet)) \<noteq> Duckdb
   \<and> count (listUsers (three_attached engine_ok Parquet)) = 3
   \<and> count (listUsers (snd (close engine_ok 9 (three_attached engine_ok Parquet)))) = 0
   \<and> \<not> initialized (snd (close engine_ok 9 (three_attached engine_ok Parquet)))
   \<and> query engine_ok 10 ''a'' ''SELECT 1'' (snd (close engine_ok 9 (three_attached engine_ok Parquet)))
       = (Resolved (notInitialized ()), snd (close engine_ok 9 (three_attached engine_ok Parquet)))
   \<and> close engine_ok 10 (snd (close engine_ok 9 (three_attached engine_ok Parquet)))
       = (Resolved (success ()), snd (close engine_ok 9 (three_attached engine_ok Parquet)))"
proof -
  let ?s = "three_attached engine_ok Parquet"
  have p: "strategy (config ?s) \<noteq> Duckdb" by code_simp
  have n: "count (listUsers ?s) = 3" by code_simp
  note T = close_drains [of engine_ok 9 ?s engine_ok 10 "''a''" "''SELECT 1''"]
  from T p n show ?thesis by blast
qed

section \<open>C9: staleness is a strict inequality\<close>

text \<open>
  Claim C9. In a cache (a map, so its keys are distinct; every cache reached by the
  operations is one, by \<open>run_cache_ops_distinct\<close>), \<open>getStale\<close> lists a key exactly when
  the key is present and the age \<open>now - lastAccess\<close> of its entry is greater than the
  timeout; an entry whose age equals the timeout is not listed.
\<close>

theorem getStale_strict:
  assumes "distinct (map fst (cache_map c))"
  shows "(key \<in> set (LRUCache_getStale now timeoutMs c)
            \<longleftrightarrow> (\<exists>v. map_of (cache_map c) key = Some v \<and> now - lastAccess v > timeoutMs))
         \<and> (map_of (cache_map c) key = Some v \<and> now - lastAccess v = timeoutMs
              \<longrightarrow> key \<notin> set (LRUCache_getStale now timeoutMs c))"
proof -
  have iff: "key \<in> set (LRUCache_getStale now timeoutMs c)
      \<longleftrightarrow> (\<exists>v. map_of (cache_map c) key = Some v \<and> now - lastAccess v > timeoutMs)"
  proof
    assume "key \<in> set (LRUCache_getStale now timeoutMs c)"
    then obtain p where p: "p \<in> set (cache_map c)" "fst p = key" "now - lastAccess (snd p) > timeoutMs"
      by (auto simp: LRUCache_getStale_def)
    from p(1,2) assms have "map_of (cache_map c) key = Some (snd p)"
      by (metis map_of_eq_Some_iff prod.collapse)
    with p(3) show "\<exists>v. map_of (cache_map c) key = Some v \<and> now - lastAccess v > timeoutMs"
      by blast
  next
    assume "\<exists>v. map_of (cache_map c) key = Some v \<and> now - lastAccess v > timeoutMs"
    then obtain v where v: "map_of (cache_map c) key = Some v" "now - lastAccess v > timeoutMs"
      by blast
    from v(1) have "(key, v) \<in> set (cache_map c)" by (rule map_of_SomeD)
    with v(2) show "key \<in> set (LRUCache_getStale now timeoutMs c)"
      by (force simp: LRUCache_getStale_def)
  qed
  then show ?thesis by auto
qed

theorem getStale_strict_witness:
  "distinct (map fst (cache_map two_entries))
   \<and> ''b'' \<notin> set (LRUCache_getStale 110 100 two_entries)
   \<and> ''a'' \<in> set (LRUCache_getStale 110 100 two_entries)
   \<and> map_of (cache_map two_entries) ''b'' = Some ((example_db ''b'')\<lparr>lastAccess := 10\<rparr>)
   \<and> (110::int) - lastAccess ((example_db ''b'')\<lparr>lastAccess := 10\<rparr>) = 100"
proof -
  have d: "distinct (map fst (cache_map two_entries))"
    by (simp add: two_entries_def)
  have b: "map_of (cache_map two_entries) ''b'' = Some ((example_db ''b'')\<lparr>lastAccess := 10\<rparr>)"
    by (simp add: two_entries_def)
  have a: "map_of (cache_map two_entries) ''a'' = Some ((example_db ''a'')\<lparr>lastAccess := 0\<rparr>)"
    by (simp add: two_entries_def)
  have age: "(110::int) - lastAccess ((example_db ''b'')\<lparr>lastAccess := 10\<rparr>) = 100" by simp
  from getStale_strict [OF d, of "''b''" 110 100 "(example_db ''b'')\<lparr>lastAccess := 10\<rparr>"] b age
  have nb: "''b'' \<notin> set (LRUCache_getStale 110 100 two_entries)" by blast
  from getStale_strict [OF d, of "''a''" 110 100 "(example_db ''a'')\<lparr>lastAccess := 0\<rparr>"] a
  have ia: "''a'' \<in> set (LRUCache_getStale 110 100 two_entries)" by simp
  from d nb ia b age show ?thesis by blast
qed

section \<open>C10: \<open>getUserStats\<close> refreshes the entry\<close>

text \<open>
  Claim C10. For a tenant in the cache, \<open>getUserStats\<close> returns success with
  \<open>attached = true\<close> and \<open>lastAccess\<close> the current time, and leaves the cache with the
  tenant's entry moved to the end (most recently used) and its \<open>lastAccess\<close> set to the
  current time. So a tenant that was the least recently used of several is no longer the one
  \<open>getLRU\<close> gives, and it is not stale at that time for any timeout that is not negative.
  For a tenant that is not in the cache the result is success with \<open>attached = false\<close> and
  \<open>lastAccess\<close> the epoch, and the state is as it was.
\<close>

theorem getUserStats_refreshes:
  "(map_of (cache_map (cache s)) uid = Some v \<longrightarrow>
      getUserStats now uid s =
        (Resolved (success \<lparr>stats_userId = uid, stats_attached = True, stats_lastAccess = now,
                            stats_memoryUsage = (case memoryUsage v of None \<Rightarrow> 0 | Some m \<Rightarrow> m),
                            storageUsage = 0, queryCount = 0\<rparr>),
         s\<lparr>cache := (cache s)\<lparr>cache_map :=
               Map_delete uid (cache_map (cache s)) @ [(uid, v\<lparr>lastAccess := now\<rparr>)]\<rparr>\<rparr>)
      \<and> (LRUCache_getLRU (cache s) = Some uid \<and> 1 < LRUCache_size (cache s)
           \<and> distinct (map fst (cache_map (cache s))) \<longrightarrow>
           LRUCache_getLRU (cache (snd (getUserStats now uid s))) \<noteq> Some uid)
      \<and> (0 \<le> timeoutMs \<longrightarrow>
           uid \<notin> set (LRUCache_getStale now timeoutMs (cache (snd (getUserStats now uid s))))))
   \<and> (map_of (cache_map (cache s)) uid = None \<longrightarrow>
        getUserStats now uid s =
          (Resolved (success \<lparr>stats_userId = uid, stats_attached = False, stats_lastAccess = 0,
                              stats_memoryUsage = 0, storageUsage = 0, queryCount = 0\<rparr>), s))"
proof (intro conjI impI)
  assume h: "map_of (cache_map (cache s)) uid = Some v"
  then show e: "getUserStats now uid s =
        (Resolved (success \<lparr>stats_userId = uid, stats_attached = True, stats_lastAccess = now,
                            stats_memoryUsage = (case memoryUsage v of None \<Rightarrow> 0 | Some m \<Rightarrow> m),
                            storageUsage = 0, queryCount = 0\<rparr>),
         s\<lparr>cache := (cache s)\<lparr>cache_map :=
               Map_delete uid (cache_map (cache s)) @ [(uid, v\<lparr>lastAccess := now\<rparr>)]\<rparr>\<rparr>)"
    by (simp add: getUserStats_eq)
  {
    assume l: "LRUCache_getLRU (cache s) = Some uid \<and> 1 < LRUCache_size (cache s)
           \<and> distinct (map fst (cache_map (cache s)))"
    then obtain w p rest where m: "cache_map (cache s) = (uid, w) # p # rest"
      by (cases "cache_map (cache s)"; cases "tl (cache_map (cache s))")
         (auto simp: LRUCache_getLRU_def LRUCache_size_def)
    with l have d: "distinct (map fst ((uid, w) # p # rest))" by simp
    then have "Map_delete uid ((uid, w) # p # rest) = p # rest"
      by (rule Map_delete_head_distinct)
    moreover from d have "fst p \<noteq> uid" by auto
    ultimately show "LRUCache_getLRU (cache (snd (getUserStats now uid s))) \<noteq> Some uid"
      using e m by (simp add: LRUCache_getLRU_def)
  }
  {
    assume "0 \<le> timeoutMs"
    then show "uid \<notin> set (LRUCache_getStale now timeoutMs (cache (snd (getUserStats now uid s))))"
      using e getStale_touched [where timeoutMs = timeoutMs and uid = uid and now = now
          and c = "cache s" and m = "cache_map (cache s)" and v = v]
      by simp
  }
next
  assume "map_of (cache_map (cache s)) uid = None"
  then show "getUserStats now uid s =
          (Resolved (success \<lparr>stats_userId = uid, stats_attached = False, stats_lastAccess = 0,
                              stats_memoryUsage = 0, storageUsage = 0, queryCount = 0\<rparr>), s)"
    by (simp add: getUserStats_eq)
qed

theorem getUserStats_refreshes_witness:
  "map_of (cache_map (cache two_attached)) ''a''
     = Some \<lparr>userId = ''a'', connection = 3, lastAccess = 1, attached = True, memoryUsage = None\<rparr>
   \<and> LRUCache_getLRU (cache two_attached) = Some ''a''
   \<and> 1 < LRUCache_size (cache two_attached)
   \<and> distinct (map fst (cache_map (cache two_attached)))
   \<and> ''a'' \<in> set (LRUCache_getStale 150 100 (cache two_attached))
   \<and> LRUCache_getLRU (cache (snd (getUserStats 150 ''a'' two_attached))) \<noteq> Some ''a''
   \<and> ''a'' \<notin> set (LRUCache_getStale 150 100 (cache (snd (getUserStats 150 ''a'' two_attached))))
   \<and> fst (getUserStats 150 ''a'' two_attached)
       = Resolved (Inr \<lparr>stats_userId = ''a'', stats_attached = True, stats_lastAccess = 150,
                        stats_memoryUsage = 0, storageUsage = 0, queryCount = 0\<rparr>)
   \<and> isAttached (stats_scenario True) ''a'' \<and> \<not> isAttached (stats_scenario True) ''b''
   \<and> \<not> isAttached (stats_scenario False) ''a'' \<and> isAttached (stats_scenario False) ''b''
   \<and> map_of (cache_map (cache two_attached)) ''z'' = None
   \<and> getUserStats 150 ''z'' two_attached
       = (Resolved (success \<lparr>stats_userId = ''z'', stats_attached = False, stats_lastAccess = 0,
                         stats_memoryUsage = 0, storageUsage = 0, queryCount = 0\<rparr>), two_attached)"
proof -
  let ?v = "\<lparr>userId = ''a'', connection = 3, lastAccess = 1, attached = True, memoryUsage = None\<rparr>"
  have h: "map_of (cache_map (cache two_attached)) ''a'' = Some ?v" by code_simp
  have l: "LRUCache_getLRU (cache two_attached) = Some ''a''" by code_simp
  have n: "1 < LRUCache_size (cache two_attached)" by code_simp
  have d: "distinct (map fst (cache_map (cache two_attached)))" by code_simp
  have st: "''a'' \<in> set (LRUCache_getStale 150 100 (cache two_attached))" by code_simp
  have z: "map_of (cache_map (cache two_attached)) ''z'' = None" by code_simp
  have sc: "isAttached (stats_scenario True) ''a'' \<and> \<not> isAttached (stats_scenario True) ''b''
     \<and> \<not> isAttached (stats_scenario False) ''a'' \<and> isAttached (stats_scenario False) ''b''"
    by code_simp
  have t: "(0::int) \<le> 100" by simp
  note T = getUserStats_refreshes [of two_attached "''a''" ?v 150 100]
  from T h l n d
  have a: "LRUCache_getLRU (cache (snd (getUserStats 150 ''a'' two_attached))) \<noteq> Some ''a''"
    by blast
  from T h t
  have b: "''a'' \<notin> set (LRUCache_getStale 150 100 (cache (snd (getUserStats 150 ''a'' two_attached))))"
    by blast
  have c: "fst (getUserStats 150 ''a'' two_attached)
       = Resolved (Inr \<lparr>stats_userId = ''a'', stats_attached = True, stats_lastAccess = 150,
                        stats_memoryUsage = 0, storageUsage = 0, queryCount = 0\<rparr>)"
    by code_simp
  from getUserStats_refreshes [of two_attached "''z''" ?v 150 100] z
  have e: "getUserStats 150 ''z'' two_attached
       = (Resolved (success \<lparr>stats_userId = ''z'', stats_attached = False, stats_lastAccess = 0,
                         stats_memoryUsage = 0, storageUsage = 0, queryCount = 0\<rparr>), two_attached)"
    by blast
  from h l n d st a b c sc z e show ?thesis by blast
qed

end
